theory Spec2Isabelle
  imports Complex_Main
begin

section \<open>Values: JSON payloads, Python exceptions, HTTP responses\<close>

text \<open>
  The routes of \<^verbatim>\<open>routes/logistics_routes.py\<close> work on whatever
  \<^verbatim>\<open>request.get_json(force=True)\<close> hands them, so a request body is any JSON
  value and not only an object with string fields. A JSON object is the association list of
  its members, read with \<open>map_of\<close>. A float is modelled by the real number it denotes.
  A Python string is the list of its code points, and a \<open>char\<close> is read as the code
  point of its number, so the strings of the model are those whose code points are below
  256. On these the string operations below agree with the builtins.
\<close>

datatype json =
    JNull
  | JBool bool
  | JInt int
  | JFloat real
  | JStr string
  | JArr "json list"
  | JObj "(string \<times> json) list"

text \<open>
  Python exceptions, by the classes the handlers distinguish. \<open>RuntimeError\<close> stands
  for \<^verbatim>\<open>RuntimeError\<close> and its subclasses, \<open>OtherException\<close> for every other
  subclass of \<^verbatim>\<open>Exception\<close>. The string is what \<^verbatim>\<open>str(e)\<close> gives, except for
  \<open>KeyError\<close>, which carries the key: \<^verbatim>\<open>str\<close> of a \<^verbatim>\<open>KeyError\<close> is the
  \<^verbatim>\<open>repr\<close> of its key.
\<close>

datatype exn =
    RuntimeError string
  | AttributeError string
  | KeyError string
  | ValueError string
  | OtherException string

datatype response = Response (status: nat) (payload: json)

definition quoted :: "string \<Rightarrow> string" where
  "quoted s = [CHR 0x27] @ s @ [CHR 0x27]"

text \<open>
  \<^verbatim>\<open>repr\<close> of a string. The quote is the apostrophe, or the double quote when the
  string holds an apostrophe and no double quote. The quote and the backslash are escaped,
  tab, line feed and carriage return are written \<^verbatim>\<open>\t\<close>, \<^verbatim>\<open>\n\<close>, \<^verbatim>\<open>\r\<close>, and every other
  code point that is not printable (0 to 31, 127 to 160, 173) is written \<^verbatim>\<open>\xhh\<close>.
\<close>

definition hex_digit :: "nat \<Rightarrow> char" where
  "hex_digit n = (if n < 10 then char_of (48 + n) else char_of (87 + n))"

definition repr_char :: "char \<Rightarrow> char \<Rightarrow> string" where
  "repr_char q c =
     (let n = (of_char c :: nat) in
      if c = q \<or> n = 92 then [CHR 0x5C, c]
      else if n = 9 then [CHR 0x5C, CHR ''t'']
      else if n = 10 then [CHR 0x5C, CHR ''n'']
      else if n = 13 then [CHR 0x5C, CHR ''r'']
      else if n < 32 \<or> (127 \<le> n \<and> n \<le> 160) \<or> n = 173
        then [CHR 0x5C, CHR ''x'', hex_digit (n div 16), hex_digit (n mod 16)]
      else [c])"

definition py_repr :: "string \<Rightarrow> string" where
  "py_repr s =
     (let q = (if CHR 0x27 \<in> set s \<and> CHR 0x22 \<notin> set s then CHR 0x22 else CHR 0x27)
      in [q] @ concat (map (repr_char q) s) @ [q])"

fun exn_str :: "exn \<Rightarrow> string" where
  "exn_str (RuntimeError m) = m"
| "exn_str (AttributeError m) = m"
| "exn_str (KeyError k) = py_repr k"
| "exn_str (ValueError m) = m"
| "exn_str (OtherException m) = m"

fun is_RuntimeError :: "exn \<Rightarrow> bool" where
  "is_RuntimeError (RuntimeError m) = True"
| "is_RuntimeError e = False"

subsection \<open>Python's view of a JSON value\<close>

text \<open>Truth value testing: \<^verbatim>\<open>not x\<close> is \<open>\<not> truthy x\<close>.\<close>

fun truthy :: "json \<Rightarrow> bool" where
  "truthy JNull = False"
| "truthy (JBool b) = b"
| "truthy (JInt i) = (i \<noteq> 0)"
| "truthy (JFloat r) = (r \<noteq> 0)"
| "truthy (JStr s) = (s \<noteq> [])"
| "truthy (JArr xs) = (xs \<noteq> [])"
| "truthy (JObj kvs) = (kvs \<noteq> [])"

fun type_name :: "json \<Rightarrow> string" where
  "type_name JNull = ''NoneType''"
| "type_name (JBool b) = ''bool''"
| "type_name (JInt i) = ''int''"
| "type_name (JFloat r) = ''float''"
| "type_name (JStr s) = ''str''"
| "type_name (JArr xs) = ''list''"
| "type_name (JObj kvs) = ''dict''"

definition no_attribute :: "json \<Rightarrow> string \<Rightarrow> exn" where
  "no_attribute v a =
     AttributeError (quoted (type_name v) @ '' object has no attribute '' @ quoted a)"

text \<open>\<^verbatim>\<open>x or {}\<close>\<close>

definition or_empty_dict :: "json \<Rightarrow> json" where
  "or_empty_dict x = (if truthy x then x else JObj [])"

text \<open>\<^verbatim>\<open>d.get(k, default)\<close>: only a dict has the method.\<close>

fun dict_get :: "json \<Rightarrow> string \<Rightarrow> json \<Rightarrow> exn + json" where
  "dict_get (JObj kvs) k d = Inr (case map_of kvs k of None \<Rightarrow> d | Some v \<Rightarrow> v)"
| "dict_get v k d = Inl (no_attribute v ''get'')"

text \<open>\<^verbatim>\<open>d[k]\<close> on a dict, given by its members. A missing key is \<^verbatim>\<open>KeyError\<close>.\<close>

definition dict_item :: "(string \<times> json) list \<Rightarrow> string \<Rightarrow> exn + json" where
  "dict_item kvs k = (case map_of kvs k of None \<Rightarrow> Inl (KeyError k) | Some v \<Rightarrow> Inr v)"

text \<open>
  \<^verbatim>\<open>str.isspace\<close> on one code point: tab, line feed, vertical tab, form feed, carriage
  return (9 to 13), the four separators 28 to 31, space (32), next line (133) and the
  no-break space (160). \<^verbatim>\<open>str.strip()\<close> removes these from both ends.
\<close>

definition is_space :: "char \<Rightarrow> bool" where
  "is_space c = (let n = (of_char c :: nat) in
                   (9 \<le> n \<and> n \<le> 13) \<or> (28 \<le> n \<and> n \<le> 32) \<or> n = 133 \<or> n = 160)"

definition strip :: "string \<Rightarrow> string" where
  "strip s = rev (dropWhile is_space (rev (dropWhile is_space s)))"

text \<open>\<^verbatim>\<open>x.strip()\<close> on a value that need not be a string.\<close>

fun method_strip :: "json \<Rightarrow> exn + string" where
  "method_strip (JStr s) = Inr (strip s)"
| "method_strip v = Inl (no_attribute v ''strip'')"

text \<open>
  \<^verbatim>\<open>str.upper()\<close> maps each code point on its own. Three results leave the code points
  below 256: the sharp s (223) becomes two letters, the micro sign (181) becomes 924 and
  the y with diaeresis (255) becomes 376. So the result is given as a list of code points.
  The letters a to z (97 to 122) and the Latin-1 letters 224 to 254, the division sign 247
  apart, move down by 32; every other code point stays.
\<close>

definition upper_cp :: "char \<Rightarrow> nat list" where
  "upper_cp c =
     (let n = (of_char c :: nat) in
      if 97 \<le> n \<and> n \<le> 122 then [n - 32]
      else if n = 181 then [924]
      else if n = 223 then [83, 83]
      else if 224 \<le> n \<and> n \<le> 254 \<and> n \<noteq> 247 then [n - 32]
      else if n = 255 then [376]
      else [n])"

definition upper :: "string \<Rightarrow> nat list" where
  "upper s = concat (map upper_cp s)"

text \<open>\<^verbatim>\<open>x.upper()\<close> on a value that need not be a string.\<close>

fun method_upper :: "json \<Rightarrow> exn + nat list" where
  "method_upper (JStr s) = Inr (upper s)"
| "method_upper v = Inl (no_attribute v ''upper'')"

section \<open>Collaborators and state\<close>

text \<open>
  The calls that leave the module. \<open>'a\<close> is the class
  \<^verbatim>\<open>AutonomousOrchestratorAgent\<close>, \<open>'m\<close> the type of its \<^verbatim>\<open>model\<close> attribute. The
  incident type handed to \<^verbatim>\<open>report_incident\<close> is the result of \<^verbatim>\<open>upper\<close>, so it is a
  list of code points.
\<close>

datatype ('a, 'm) call =
    Call_AutonomousOrchestratorAgent string
  | Call_plan_logistics 'a json
  | Call_verify_pin string string json
  | Call_get_all_shipments
  | Call_get_active_shipments
  | Call_report_incident json json "nat list" json 'm
  | Call_resolve_incident string
  | Call_get_all_incidents
  | Call_get_open_incidents
  | Call_get_weather real real

text \<open>
  What the module imports and does not define: the process environment, the agent class,
  the functions of \<^verbatim>\<open>delivery_verifier\<close>, \<^verbatim>\<open>transport_fallback_agent\<close> and
  \<^verbatim>\<open>weather_service\<close> (each may raise, and each may change the state \<open>'w\<close> its module
  owns), and two builtins that are not modelled further: \<^verbatim>\<open>str\<close> on a value that is
  not a string, and \<^verbatim>\<open>float\<close> on a string (\<open>None\<close> is \<^verbatim>\<open>ValueError\<close>).
\<close>

record ('a, 'm, 'w) env =
  environ :: "string \<rightharpoonup> string"
  new_agent :: "string \<Rightarrow> 'w \<Rightarrow> (exn + 'a) \<times> 'w"
  agent_model :: "'a \<Rightarrow> 'm"
  collaborator :: "('a, 'm) call \<Rightarrow> 'w \<Rightarrow> (exn + json) \<times> 'w"
  str_other :: "json \<Rightarrow> string"
  py_float :: "string \<Rightarrow> real option"

text \<open>
  The state a request runs in: the module global \<^verbatim>\<open>_agent\<close> (the only variable of the
  module that is ever assigned), the state of the collaborators, and a log of the calls
  made so far, kept for the proofs.
\<close>

record ('a, 'm, 'w) state =
  agent_global :: "'a option"
  world :: 'w
  calls :: "('a, 'm) call list"

definition py_str :: "('a, 'm, 'w) env \<Rightarrow> json \<Rightarrow> string" where
  "py_str E v = (case v of JStr s \<Rightarrow> s | _ \<Rightarrow> str_other E v)"

definition invoke ::
  "('a, 'm, 'w) env \<Rightarrow> ('a, 'm) call \<Rightarrow> ('a, 'm, 'w) state \<Rightarrow> (exn + json) \<times> ('a, 'm, 'w) state"
where
  "invoke E c st =
     (case collaborator E c (world st) of
        (r, w') \<Rightarrow> (r, st\<lparr>world := w', calls := calls st @ [c]\<rparr>))"

text \<open>
  Line 34. The literal in the source is a credential; its characters are left out here,
  and nothing below depends on them.
\<close>

definition GEMINI_API_KEY :: string where
  "GEMINI_API_KEY = ''<literal of line 34>''"

text \<open>\<^verbatim>\<open>os.environ.get("GEMINI_API_KEY", _GEMINI_API_KEY)\<close>\<close>

definition api_key_of :: "('a, 'm, 'w) env \<Rightarrow> string" where
  "api_key_of E = (case environ E ''GEMINI_API_KEY'' of None \<Rightarrow> GEMINI_API_KEY | Some k \<Rightarrow> k)"

text \<open>
  Lines 40 to 42 of \<^verbatim>\<open>_get_agent\<close>, the branch taken when the test of line 39 found
  no handle: read the key, construct the agent, assign it to \<^verbatim>\<open>_agent\<close>, return it.
\<close>

definition construct_agent ::
  "('a, 'm, 'w) env \<Rightarrow> ('a, 'm, 'w) state \<Rightarrow> (exn + 'a) \<times> ('a, 'm, 'w) state"
where
  "construct_agent E st =
     (let api_key = api_key_of E;
          st1 = st\<lparr>calls := calls st @ [Call_AutonomousOrchestratorAgent api_key]\<rparr>
      in case new_agent E api_key (world st) of
           (Inl e, w') \<Rightarrow> (Inl e, st1\<lparr>world := w'\<rparr>)
         | (Inr a, w') \<Rightarrow> (Inr a, st1\<lparr>world := w', agent_global := Some a\<rparr>))"

text \<open>\<^verbatim>\<open>_get_agent\<close>, lines 37 to 42, run without interruption.\<close>

definition get_agent ::
  "('a, 'm, 'w) env \<Rightarrow> ('a, 'm, 'w) state \<Rightarrow> (exn + 'a) \<times> ('a, 'm, 'w) state"
where
  "get_agent E st =
     (case agent_global st of
        Some a \<Rightarrow> (Inr a, st)
      | None \<Rightarrow> construct_agent E st)"

section \<open>The route handlers\<close>

text \<open>
  Each handler takes what Flask parsed from the request (the JSON body, or the query
  arguments) and the state, and gives back the state and either the response it returns
  or the exception that leaves it. A body that is not JSON at all never reaches this
  point: \<^verbatim>\<open>get_json\<close> aborts the request inside Flask. The two page routes (lines 49
  to 56) only render a template and are not modelled, nor are the log lines written in
  the \<^verbatim>\<open>except\<close> clauses.
\<close>

definition error_body :: "string \<Rightarrow> json" where
  "error_body m = JObj [(''error'', JStr m)]"

subsection \<open>Plan (lines 63 to 84)\<close>

text \<open>The two \<^verbatim>\<open>except\<close> clauses of lines 79 to 84.\<close>

definition plan_except :: "exn \<Rightarrow> response" where
  "plan_except e =
     (if is_RuntimeError e then Response 422 (error_body (exn_str e))
      else Response 500
             (JObj [(''error'', JStr ''Internal server error.''), (''detail'', JStr (exn_str e))]))"

definition plan_logistics ::
  "('a, 'm, 'w) env \<Rightarrow> json \<Rightarrow> ('a, 'm, 'w) state \<Rightarrow> (exn + response) \<times> ('a, 'm, 'w) state"
where
  "plan_logistics E j st =
     (case dict_get (or_empty_dict j) ''orders'' (JArr []) of
        Inl e \<Rightarrow> (Inl e, st)
      | Inr order_ids \<Rightarrow>
          if \<not> truthy order_ids then
            (Inr (Response 400
                    (error_body (''Provide at least one order ID in '' @ quoted ''orders'' @ '' list.''))),
             st)
          else
            (case get_agent E st of
               (Inl e, st1) \<Rightarrow> (Inr (plan_except e), st1)
             | (Inr a, st1) \<Rightarrow>
                 (case invoke E (Call_plan_logistics a order_ids) st1 of
                    (Inl e, st2) \<Rightarrow> (Inr (plan_except e), st2)
                  | (Inr result, st2) \<Rightarrow> (Inr (Response 200 result), st2))))"

subsection \<open>Delivery verification (lines 91 to 122)\<close>

definition verify_delivery ::
  "('a, 'm, 'w) env \<Rightarrow> json \<Rightarrow> ('a, 'm, 'w) state \<Rightarrow> (exn + response) \<times> ('a, 'm, 'w) state"
where
  "verify_delivery E j st =
     (let body = or_empty_dict j in
      case dict_get body ''shipment_id'' (JStr []) of
        Inl e \<Rightarrow> (Inl e, st)
      | Inr v1 \<Rightarrow>
     (case method_strip v1 of
        Inl e \<Rightarrow> (Inl e, st)
      | Inr shipment_id \<Rightarrow>
     (case dict_get body ''pin'' (JStr []) of
        Inl e \<Rightarrow> (Inl e, st)
      | Inr v2 \<Rightarrow>
     (let entered_pin = strip (py_str E v2) in
      case dict_get body ''verified_by'' (JStr ''driver'') of
        Inl e \<Rightarrow> (Inl e, st)
      | Inr verified_by \<Rightarrow>
          if shipment_id = [] \<or> entered_pin = [] then
            (Inr (Response 400
                    (error_body (''Provide '' @ quoted ''shipment_id'' @ '' and '' @ quoted ''pin'' @ ''.''))),
             st)
          else
            (case invoke E (Call_verify_pin shipment_id entered_pin verified_by) st of
               (Inl e, st1) \<Rightarrow> (Inl e, st1)
             | (Inr result, st1) \<Rightarrow>
                 (case dict_get result ''success'' JNull of
                    Inl e \<Rightarrow> (Inl e, st1)
                  | Inr s \<Rightarrow> (Inr (Response (if truthy s then 200 else 422) result), st1)))))))"

text \<open>\<^verbatim>\<open>return jsonify(f()), 200\<close>, the body of the four list routes.\<close>

definition jsonify_200 ::
  "('a, 'm, 'w) env \<Rightarrow> ('a, 'm) call \<Rightarrow> ('a, 'm, 'w) state \<Rightarrow> (exn + response) \<times> ('a, 'm, 'w) state"
where
  "jsonify_200 E c st =
     (case invoke E c st of
        (Inl e, st1) \<Rightarrow> (Inl e, st1)
      | (Inr result, st1) \<Rightarrow> (Inr (Response 200 result), st1))"

definition get_shipments ::
  "('a, 'm, 'w) env \<Rightarrow> ('a, 'm, 'w) state \<Rightarrow> (exn + response) \<times> ('a, 'm, 'w) state"
where
  "get_shipments E st = jsonify_200 E Call_get_all_shipments st"

definition get_active_shipments ::
  "('a, 'm, 'w) env \<Rightarrow> ('a, 'm, 'w) state \<Rightarrow> (exn + response) \<times> ('a, 'm, 'w) state"
where
  "get_active_shipments E st = jsonify_200 E Call_get_active_shipments st"

subsection \<open>Transport incidents (lines 129 to 185)\<close>

definition required :: "string list" where
  "required = [''shipment_id'', ''vehicle_id'', ''incident_type'', ''description'']"

text \<open>
  The loop of lines 148 to 150 on a body that is a dict, given by its members: the first
  key for which \<^verbatim>\<open>body.get(k)\<close> is falsy, if there is one.
\<close>

fun missing_field :: "(string \<times> json) list \<Rightarrow> string list \<Rightarrow> string option" where
  "missing_field kvs [] = None"
| "missing_field kvs (k # ks) =
     (if \<not> truthy (case map_of kvs k of None \<Rightarrow> JNull | Some v \<Rightarrow> v) then Some k
      else missing_field kvs ks)"

text \<open>
  The arguments of the call of lines 154 to 160, evaluated left to right, on a body that
  is a dict.
\<close>

definition report_args ::
  "('a, 'm, 'w) env \<Rightarrow> (string \<times> json) list \<Rightarrow> 'a \<Rightarrow> exn + ('a, 'm) call"
where
  "report_args E body agent =
     (case dict_item body ''shipment_id'' of
        Inl e \<Rightarrow> Inl e
      | Inr shipment_id \<Rightarrow>
     (case dict_item body ''vehicle_id'' of
        Inl e \<Rightarrow> Inl e
      | Inr vehicle_id \<Rightarrow>
     (case dict_item body ''incident_type'' of
        Inl e \<Rightarrow> Inl e
      | Inr t \<Rightarrow>
     (case method_upper t of
        Inl e \<Rightarrow> Inl e
      | Inr incident_type \<Rightarrow>
     (case dict_item body ''description'' of
        Inl e \<Rightarrow> Inl e
      | Inr description \<Rightarrow>
          Inr (Call_report_incident shipment_id vehicle_id incident_type description
                 (agent_model E agent)))))))"

text \<open>The \<^verbatim>\<open>except\<close> clause of lines 162 to 164.\<close>

definition report_except :: "exn \<Rightarrow> response" where
  "report_except e = Response 500 (error_body (exn_str e))"

text \<open>
  Lines 146 to 164. Only a dict has \<^verbatim>\<open>get\<close>: on any other body the first pass of the
  loop, \<^verbatim>\<open>body.get("shipment_id")\<close>, raises \<^verbatim>\<open>AttributeError\<close> outside the
  \<^verbatim>\<open>try\<close> block.
\<close>

definition report_incident ::
  "('a, 'm, 'w) env \<Rightarrow> json \<Rightarrow> ('a, 'm, 'w) state \<Rightarrow> (exn + response) \<times> ('a, 'm, 'w) state"
where
  "report_incident E j st =
     (case or_empty_dict j of
        JObj body \<Rightarrow>
          (case missing_field body required of
             Some k \<Rightarrow>
               (Inr (Response 400
                       (error_body (''Missing required field: '' @ quoted k @ ''.''))),
                st)
           | None \<Rightarrow>
               (case get_agent E st of
                  (Inl e, st1) \<Rightarrow> (Inr (report_except e), st1)
                | (Inr agent, st1) \<Rightarrow>
                    (case report_args E body agent of
                       Inl e \<Rightarrow> (Inr (report_except e), st1)
                     | Inr c \<Rightarrow>
                         (case invoke E c st1 of
                            (Inl e, st2) \<Rightarrow> (Inr (report_except e), st2)
                          | (Inr result, st2) \<Rightarrow> (Inr (Response 200 result), st2)))))
      | v \<Rightarrow> (Inl (no_attribute v ''get''), st))"

definition resolve_incident ::
  "('a, 'm, 'w) env \<Rightarrow> json \<Rightarrow> ('a, 'm, 'w) state \<Rightarrow> (exn + response) \<times> ('a, 'm, 'w) state"
where
  "resolve_incident E j st =
     (case dict_get (or_empty_dict j) ''incident_id'' (JStr []) of
        Inl e \<Rightarrow> (Inl e, st)
      | Inr v \<Rightarrow>
     (case method_strip v of
        Inl e \<Rightarrow> (Inl e, st)
      | Inr incident_id \<Rightarrow>
          if incident_id = [] then
            (Inr (Response 400 (error_body (''Provide '' @ quoted ''incident_id'' @ ''.''))), st)
          else
            (case invoke E (Call_resolve_incident incident_id) st of
               (Inl e, st1) \<Rightarrow> (Inl e, st1)
             | (Inr result, st1) \<Rightarrow>
                 (case dict_get result ''success'' JNull of
                    Inl e \<Rightarrow> (Inl e, st1)
                  | Inr s \<Rightarrow> (Inr (Response (if truthy s then 200 else 404) result), st1)))))"

definition get_incidents ::
  "('a, 'm, 'w) env \<Rightarrow> ('a, 'm, 'w) state \<Rightarrow> (exn + response) \<times> ('a, 'm, 'w) state"
where
  "get_incidents E st = jsonify_200 E Call_get_all_incidents st"

definition get_open_incidents ::
  "('a, 'm, 'w) env \<Rightarrow> ('a, 'm, 'w) state \<Rightarrow> (exn + response) \<times> ('a, 'm, 'w) state"
where
  "get_open_incidents E st = jsonify_200 E Call_get_open_incidents st"

subsection \<open>Weather (lines 192 to 204)\<close>

text \<open>
  \<^verbatim>\<open>float(request.args.get(k, d))\<close>: the first value of the query argument \<open>k\<close>,
  parsed, or the float \<open>d\<close> when the argument is absent. \<open>None\<close> is \<^verbatim>\<open>ValueError\<close>.
\<close>

definition float_arg ::
  "('a, 'm, 'w) env \<Rightarrow> (string \<times> string) list \<Rightarrow> string \<Rightarrow> real \<Rightarrow> real option"
where
  "float_arg E args k d = (case map_of args k of None \<Rightarrow> Some d | Some s \<Rightarrow> py_float E s)"

definition get_weather ::
  "('a, 'm, 'w) env \<Rightarrow> (string \<times> string) list \<Rightarrow> ('a, 'm, 'w) state
     \<Rightarrow> (exn + response) \<times> ('a, 'm, 'w) state"
where
  "get_weather E args st =
     (case float_arg E args ''lat'' 12.9716 of
        None \<Rightarrow> (Inr (Response 400 (error_body ''lat/lng must be numeric.'')), st)
      | Some lat \<Rightarrow>
     (case float_arg E args ''lng'' 77.5946 of
        None \<Rightarrow> (Inr (Response 400 (error_body ''lat/lng must be numeric.'')), st)
      | Some lng \<Rightarrow> jsonify_200 E (Call_get_weather lat lng) st))"

subsection \<open>The routing table, and a process serving requests one after another\<close>

datatype request =
    Plan json
  | VerifyDelivery json
  | ListShipments
  | ListActiveShipments
  | ReportIncident json
  | ResolveIncident json
  | ListIncidents
  | ListOpenIncidents
  | GetWeather "(string \<times> string) list"

fun handle ::
  "('a, 'm, 'w) env \<Rightarrow> request \<Rightarrow> ('a, 'm, 'w) state \<Rightarrow> (exn + response) \<times> ('a, 'm, 'w) state"
where
  "handle E (Plan j) st = plan_logistics E j st"
| "handle E (VerifyDelivery j) st = verify_delivery E j st"
| "handle E ListShipments st = get_shipments E st"
| "handle E ListActiveShipments st = get_active_shipments E st"
| "handle E (ReportIncident j) st = report_incident E j st"
| "handle E (ResolveIncident j) st = resolve_incident E j st"
| "handle E ListIncidents st = get_incidents E st"
| "handle E ListOpenIncidents st = get_open_incidents E st"
| "handle E (GetWeather args) st = get_weather E args st"

fun serve ::
  "('a, 'm, 'w) env \<Rightarrow> request list \<Rightarrow> ('a, 'm, 'w) state \<Rightarrow> ('a, 'm, 'w) state"
where
  "serve E [] st = st"
| "serve E (r # rs) st = serve E rs (snd (handle E r st))"

section \<open>Notions used in the statements\<close>

text \<open>A log entry for the construction of the agent, as opposed to a call of a collaborator.\<close>

fun is_constructor :: "('a, 'm) call \<Rightarrow> bool" where
  "is_constructor (Call_AutonomousOrchestratorAgent k) = True"
| "is_constructor c = False"

text \<open>The routes whose collaborator call stands inside a \<^verbatim>\<open>try\<close> block.\<close>

fun has_try :: "request \<Rightarrow> bool" where
  "has_try (Plan j) = True"
| "has_try (ReportIncident j) = True"
| "has_try r = False"

text \<open>
  A concrete environment for the instances below: no \<^verbatim>\<open>GEMINI_API_KEY\<close> in the
  process environment, an agent class whose construction succeeds, and collaborators that
  all answer \<open>r\<close> and count their calls.
\<close>

definition stub_env :: "(exn + json) \<Rightarrow> (nat, nat, nat) env" where
  "stub_env r =
     \<lparr>environ = Map.empty,
      new_agent = (\<lambda>k w. (Inr 1, w)),
      agent_model = (\<lambda>a. a),
      collaborator = (\<lambda>c w. (r, Suc w)),
      str_other = (\<lambda>v. ''None''),
      py_float = (\<lambda>s. if s = ''12.5'' then Some 12.5 else None)\<rparr>"

definition fresh :: "(nat, nat, nat) state" where
  "fresh = \<lparr>agent_global = None, world = 0, calls = []\<rparr>"

text \<open>The same with an agent class that hands out a new object at each construction.\<close>

definition numbering_env :: "(nat, nat, nat) env" where
  "numbering_env = (stub_env (Inr JNull))\<lparr>new_agent := (\<lambda>k w. (Inr w, Suc w))\<rparr>"

section \<open>Basic facts\<close>

lemma invoke_eq:
  "collaborator E c (world st) = (r, w') \<Longrightarrow>
   invoke E c st = (r, st\<lparr>world := w', calls := calls st @ [c]\<rparr>)"
  by (simp add: invoke_def)

lemma invoke_calls: "calls (snd (invoke E c st)) = calls st @ [c]"
  by (simp add: invoke_def split: prod.splits)

lemma invoke_agent_global: "agent_global (snd (invoke E c st)) = agent_global st"
  by (simp add: invoke_def split: prod.splits)

lemma or_empty_dict_obj: "or_empty_dict (JObj kvs) = JObj kvs"
  by (cases kvs) (simp_all add: or_empty_dict_def)

section \<open>Plan\<close>

text \<open>
  C2. A request whose \<^verbatim>\<open>orders\<close> is a non-empty list, served once the agent handle is
  there, makes exactly one call, \<^verbatim>\<open>plan_logistics\<close> of the agent on that list. When the
  call returns a plan the response is 200 with the plan as it is; when it raises a
  \<^verbatim>\<open>RuntimeError\<close> the response is 422 with the body \<^verbatim>\<open>{"error": str(e)}\<close>; when it
  raises anything else the response is 500 with a generic body.
\<close>

theorem plan_maps_agent_outcome:
  assumes orders: "map_of kvs ''orders'' = Some (JArr (x # xs))"
      and agent: "get_agent E st = (Inr a, st1)"
      and outcome: "collaborator E (Call_plan_logistics a (JArr (x # xs))) (world st1) = (r, w')"
  shows "plan_logistics E (JObj kvs) st =
           (Inr (case r of
                   Inr plan \<Rightarrow> Response 200 plan
                 | Inl e \<Rightarrow>
                     if is_RuntimeError e then Response 422 (JObj [(''error'', JStr (exn_str e))])
                     else Response 500 (JObj [(''error'', JStr ''Internal server error.''),
                                              (''detail'', JStr (exn_str e))])),
            st1\<lparr>world := w', calls := calls st1 @ [Call_plan_logistics a (JArr (x # xs))]\<rparr>)"
  using assms
  by (simp add: plan_logistics_def or_empty_dict_obj invoke_eq plan_except_def error_body_def
           split: sum.splits)

theorem plan_maps_agent_outcome_witness:
  "plan_logistics (stub_env (Inr (JObj [(''shipment_id'', JStr ''SHP-1'')])))
       (JObj [(''orders'', JArr [JStr ''O001''])]) fresh
     = (Inr (Response 200 (JObj [(''shipment_id'', JStr ''SHP-1'')])),
        \<lparr>agent_global = Some 1, world = 1,
         calls = [Call_AutonomousOrchestratorAgent GEMINI_API_KEY,
                  Call_plan_logistics 1 (JArr [JStr ''O001''])]\<rparr>)
   \<and> fst (plan_logistics (stub_env (Inl (RuntimeError ''no feasible route'')))
            (JObj [(''orders'', JArr [JStr ''O001''])]) fresh)
     = Inr (Response 422 (JObj [(''error'', JStr ''no feasible route'')]))
   \<and> fst (plan_logistics (stub_env (Inl (ValueError ''bad'')))
            (JObj [(''orders'', JArr [JStr ''O001''])]) fresh)
     = Inr (Response 500 (JObj [(''error'', JStr ''Internal server error.''),
                                (''detail'', JStr ''bad'')]))"
proof -
  let ?st1 = "\<lparr>agent_global = Some (1::nat), world = (0::nat),
               calls = [Call_AutonomousOrchestratorAgent GEMINI_API_KEY :: (nat, nat) call]\<rparr>"
  have o: "map_of [(''orders'', JArr [JStr ''O001''])] ''orders'' = Some (JArr (JStr ''O001'' # []))"
    by simp
  have g: "get_agent (stub_env r) fresh = (Inr 1, ?st1)" for r
    by (simp add: get_agent_def construct_agent_def stub_env_def fresh_def api_key_of_def)
  have c: "collaborator (stub_env r) (Call_plan_logistics 1 (JArr (JStr ''O001'' # []))) (world ?st1)
             = (r, 1)" for r
    by (simp add: stub_env_def)
  show ?thesis
    using plan_maps_agent_outcome [OF o g c, of "Inr (JObj [(''shipment_id'', JStr ''SHP-1'')])"]
          plan_maps_agent_outcome [OF o g c, of "Inl (RuntimeError ''no feasible route'')"]
          plan_maps_agent_outcome [OF o g c, of "Inl (ValueError ''bad'')"]
    by simp
qed

section \<open>What each route does to the state\<close>

lemma get_agent_Some: "agent_global st = Some a \<Longrightarrow> get_agent E st = (Inr a, st)"
  by (simp add: get_agent_def construct_agent_def)

lemma get_agent_None:
  assumes "agent_global st = None" and "new_agent E (api_key_of E) (world st) = (r, w')"
  shows "get_agent E st =
           (r, st\<lparr>calls := calls st @ [Call_AutonomousOrchestratorAgent (api_key_of E)],
                  world := w',
                  agent_global := (case r of Inl e \<Rightarrow> None | Inr a \<Rightarrow> Some a)\<rparr>)"
  using assms by (cases r) (simp_all add: get_agent_def construct_agent_def)

lemma get_agent_frame:
  "get_agent E st = (r, st1) \<Longrightarrow>
     (\<exists>cs. calls st1 = calls st @ cs \<and> filter (\<lambda>c. \<not> is_constructor c) cs = [])
   \<and> (agent_global st = Some a \<longrightarrow> agent_global st1 = Some a \<and> calls st1 = calls st)
   \<and> (\<forall>e. r = Inl e \<longrightarrow> calls st1 \<noteq> calls st)"
  by (auto simp: get_agent_def construct_agent_def Let_def split: option.splits prod.splits sum.splits)

lemma jsonify_200_frame:
  "jsonify_200 E c st = (out, st') \<Longrightarrow>
     calls st' = calls st @ [c] \<and> agent_global st' = agent_global st"
  by (auto simp: jsonify_200_def invoke_def split: prod.splits sum.splits)

lemma verify_delivery_frame:
  "verify_delivery E j st = (out, st') \<Longrightarrow>
     agent_global st' = agent_global st \<and>
     (calls st' = calls st \<or> (\<exists>s p v. calls st' = calls st @ [Call_verify_pin s p v]))"
  by (auto simp: verify_delivery_def invoke_def Let_def split: prod.splits sum.splits if_splits)

lemma resolve_incident_frame:
  "resolve_incident E j st = (out, st') \<Longrightarrow>
     agent_global st' = agent_global st \<and>
     (calls st' = calls st \<or> (\<exists>s. calls st' = calls st @ [Call_resolve_incident s]))"
  by (auto simp: resolve_incident_def invoke_def Let_def split: prod.splits sum.splits if_splits)

lemma get_weather_frame:
  "get_weather E args st = (out, st') \<Longrightarrow>
     agent_global st' = agent_global st \<and>
     (calls st' = calls st \<or> (\<exists>x y. calls st' = calls st @ [Call_get_weather x y]))"
  by (auto simp: get_weather_def dest: jsonify_200_frame split: option.splits)


lemma get_agent_cases:
  obtains (present) a where "agent_global st = Some a" "get_agent E st = (Inr a, st)"
  | (failed) e w' where "agent_global st = None"
      "get_agent E st = (Inl e, st\<lparr>calls := calls st @ [Call_AutonomousOrchestratorAgent (api_key_of E)], world := w'\<rparr>)"
  | (made) a w' where "agent_global st = None"
      "get_agent E st = (Inr a, st\<lparr>calls := calls st @ [Call_AutonomousOrchestratorAgent (api_key_of E)], world := w', agent_global := Some a\<rparr>)"
proof (cases "agent_global st")
  case (Some a)
  then show ?thesis using present by (simp add: get_agent_def construct_agent_def)
next
  case None
  obtain r w' where n: "new_agent E (api_key_of E) (world st) = (r, w')"
    by (cases "new_agent E (api_key_of E) (world st)")
  show ?thesis
  proof (cases r)
    case (Inl e)
    with None n show ?thesis using failed [of e w'] by (simp add: get_agent_def construct_agent_def)
  next
    case (Inr a)
    with None n show ?thesis using made [of a w'] by (simp add: get_agent_def construct_agent_def)
  qed
qed

lemma plan_logistics_frame:
  assumes "plan_logistics E j st = (out, st')"
  shows "\<exists>cs. calls st' = calls st @ cs
            \<and> length (filter (\<lambda>c. \<not> is_constructor c) cs) \<le> 1
            \<and> (\<forall>a. agent_global st = Some a \<longrightarrow> agent_global st' = Some a \<and> filter is_constructor cs = [])
            \<and> (cs \<noteq> [] \<longrightarrow> (\<exists>resp. out = Inr resp \<and> status resp \<in> {200, 422, 500}))"
proof (cases E st rule: get_agent_cases)
  case (present a)
  with assms show ?thesis
    by (auto simp: plan_logistics_def invoke_def plan_except_def split: sum.splits prod.splits if_splits)
next
  case (failed e w')
  with assms show ?thesis
    by (auto simp: plan_logistics_def invoke_def plan_except_def split: sum.splits prod.splits if_splits)
next
  case (made a w')
  with assms show ?thesis
    by (auto simp: plan_logistics_def invoke_def plan_except_def split: sum.splits prod.splits if_splits)
qed

lemma report_incident_frame:
  assumes "report_incident E j st = (out, st')"
  shows "\<exists>cs. calls st' = calls st @ cs
            \<and> length (filter (\<lambda>c. \<not> is_constructor c) cs) \<le> 1
            \<and> (\<forall>a. agent_global st = Some a \<longrightarrow> agent_global st' = Some a \<and> filter is_constructor cs = [])
            \<and> (cs \<noteq> [] \<longrightarrow> (\<exists>resp. out = Inr resp \<and> status resp \<in> {200, 422, 500}))"
proof (cases E st rule: get_agent_cases)
  case (present a)
  with assms show ?thesis
    by (auto simp: report_incident_def report_args_def dict_item_def invoke_def report_except_def Let_def
             split: json.splits sum.splits prod.splits if_splits option.splits)
next
  case (failed e w')
  with assms show ?thesis
    by (auto simp: report_incident_def report_args_def dict_item_def invoke_def report_except_def Let_def
             split: json.splits sum.splits prod.splits if_splits option.splits)
next
  case (made a w')
  with assms show ?thesis
    by (auto simp: report_incident_def report_args_def dict_item_def invoke_def report_except_def Let_def
             split: json.splits sum.splits prod.splits if_splits option.splits)
qed


lemma handle_frame:
  assumes "handle E r st = (out, st')"
  shows "\<exists>cs. calls st' = calls st @ cs
            \<and> length (filter (\<lambda>c. \<not> is_constructor c) cs) \<le> 1
            \<and> (\<forall>a. agent_global st = Some a \<longrightarrow> agent_global st' = Some a \<and> filter is_constructor cs = [])
            \<and> (\<not> has_try r \<longrightarrow> agent_global st' = agent_global st \<and> filter is_constructor cs = [])
            \<and> (has_try r \<longrightarrow> cs \<noteq> [] \<longrightarrow> (\<exists>resp. out = Inr resp \<and> status resp \<in> {200, 422, 500}))"
proof (cases r)
  case (Plan j)
  with assms plan_logistics_frame [of E j st out st'] show ?thesis by auto
next
  case (VerifyDelivery j)
  with assms verify_delivery_frame [of E j st out st'] show ?thesis by auto
next
  case ListShipments
  with assms jsonify_200_frame [of E Call_get_all_shipments st out st'] show ?thesis
    by (auto simp: get_shipments_def)
next
  case ListActiveShipments
  with assms jsonify_200_frame [of E Call_get_active_shipments st out st'] show ?thesis
    by (auto simp: get_active_shipments_def)
next
  case (ReportIncident j)
  with assms report_incident_frame [of E j st out st'] show ?thesis by auto
next
  case (ResolveIncident j)
  with assms resolve_incident_frame [of E j st out st'] show ?thesis by auto
next
  case ListIncidents
  with assms jsonify_200_frame [of E Call_get_all_incidents st out st'] show ?thesis
    by (auto simp: get_incidents_def)
next
  case ListOpenIncidents
  with assms jsonify_200_frame [of E Call_get_open_incidents st out st'] show ?thesis
    by (auto simp: get_open_incidents_def)
next
  case (GetWeather args)
  with assms get_weather_frame [of E args st out st'] show ?thesis by auto
qed

lemma serve_append: "serve E (rs @ rs') st = serve E rs' (serve E rs st)"
  by (induction rs arbitrary: st) simp_all

lemma serve_keeps_agent:
  "agent_global st = Some a \<Longrightarrow>
     agent_global (serve E rs st) = Some a \<and>
     filter is_constructor (calls (serve E rs st)) = filter is_constructor (calls st)"
proof (induction rs arbitrary: st)
  case Nil
  then show ?case by simp
next
  case (Cons r rs)
  obtain out st' where h: "handle E r st = (out, st')" by (cases "handle E r st")
  from handle_frame [OF h] Cons.prems
  have "agent_global st' = Some a"
    and "filter is_constructor (calls st') = filter is_constructor (calls st)"
    by auto
  with Cons.IH [of st'] h show ?case by simp
qed


lemma jsonify_200_escape:
  "jsonify_200 E c' st = (out, st') \<Longrightarrow> calls st' = calls st @ [c] \<Longrightarrow>
   collaborator E c (world st) = (Inl e, w') \<Longrightarrow> out = Inl e"
  by (auto simp: jsonify_200_def invoke_def split: prod.splits sum.splits)

lemma verify_delivery_escape:
  "verify_delivery E j st = (out, st') \<Longrightarrow> calls st' = calls st @ [c] \<Longrightarrow>
   collaborator E c (world st) = (Inl e, w') \<Longrightarrow> out = Inl e"
  by (auto simp: verify_delivery_def invoke_def Let_def split: prod.splits sum.splits if_splits)

lemma resolve_incident_escape:
  "resolve_incident E j st = (out, st') \<Longrightarrow> calls st' = calls st @ [c] \<Longrightarrow>
   collaborator E c (world st) = (Inl e, w') \<Longrightarrow> out = Inl e"
  by (auto simp: resolve_incident_def invoke_def Let_def split: prod.splits sum.splits if_splits)

lemma get_weather_escape:
  "get_weather E args st = (out, st') \<Longrightarrow> calls st' = calls st @ [c] \<Longrightarrow>
   collaborator E c (world st) = (Inl e, w') \<Longrightarrow> out = Inl e"
  by (auto simp: get_weather_def dest: jsonify_200_escape split: option.splits)

lemma handle_escape:
  assumes "\<not> has_try r" and "handle E r st = (out, st')" and "calls st' = calls st @ [c]"
      and "collaborator E c (world st) = (Inl e, w')"
  shows "out = Inl e"
  using assms
  by (cases r)
     (auto simp: get_shipments_def get_active_shipments_def get_incidents_def
                 get_open_incidents_def
           dest: jsonify_200_escape verify_delivery_escape resolve_incident_escape
                 get_weather_escape)

section \<open>Collaborator failures\<close>

text \<open>
  C3, as stated, fails: the verifier raises and the exception leaves \<^verbatim>\<open>verify_delivery\<close>,
  which has no \<^verbatim>\<open>try\<close> block (lines 106 to 112).
\<close>

theorem verify_delivery_lets_failure_escape:
  "fst (handle (stub_env (Inl (OtherException ''verifier unavailable'')))
          (VerifyDelivery (JObj [(''shipment_id'', JStr ''SHP-1''), (''pin'', JStr ''4821'')]))
          fresh)
     = Inl (OtherException ''verifier unavailable'')"
  by (simp add: verify_delivery_def or_empty_dict_def strip_def is_space_def py_str_def
                invoke_def stub_env_def fresh_def)

lemma handle_failure_frame:
  "(has_try r \<longrightarrow> calls (snd (handle E r st)) \<noteq> calls st \<longrightarrow>
      (\<exists>resp. fst (handle E r st) = Inr resp \<and> status resp \<in> {200, 422, 500}))
 \<and> (\<not> has_try r \<longrightarrow>
      (\<forall>c e w'. calls (snd (handle E r st)) = calls st @ [c]
                 \<and> collaborator E c (world st) = (Inl e, w')
               \<longrightarrow> fst (handle E r st) = Inl e))
 \<and> (\<exists>cs. calls (snd (handle E r st)) = calls st @ cs
         \<and> length (filter (\<lambda>c. \<not> is_constructor c) cs) \<le> 1)"
proof -
  obtain out st' where h: "handle E r st = (out, st')" by (cases "handle E r st")
  from handle_frame [OF h] obtain cs where
      cs: "calls st' = calls st @ cs" "length (filter (\<lambda>c. \<not> is_constructor c) cs) \<le> 1"
    and guarded: "has_try r \<longrightarrow> cs \<noteq> [] \<longrightarrow> (\<exists>resp. out = Inr resp \<and> status resp \<in> {200, 422, 500})"
    by blast
  have a: "has_try r \<longrightarrow> calls (snd (handle E r st)) \<noteq> calls st \<longrightarrow>
             (\<exists>resp. fst (handle E r st) = Inr resp \<and> status resp \<in> {200, 422, 500})"
    using h cs guarded by auto
  have b: "\<not> has_try r \<longrightarrow>
             (\<forall>c e w'. calls (snd (handle E r st)) = calls st @ [c]
                        \<and> collaborator E c (world st) = (Inl e, w')
                      \<longrightarrow> fst (handle E r st) = Inl e)"
    using h handle_escape [of r E st out st'] by auto
  have c: "\<exists>cs. calls (snd (handle E r st)) = calls st @ cs
              \<and> length (filter (\<lambda>c. \<not> is_constructor c) cs) \<le> 1"
    using h cs by auto
  from a b c show ?thesis by blast
qed

section \<open>The list routes\<close>

text \<open>
  C9. The four list routes leave the agent handle alone, make one collaborator call and no
  constructor call, and their outcome depends on the state of the collaborators only: two
  requests served at the same collaborator state get the same outcome, which is 200 with
  the collaborator's value whenever the collaborator returns one.
\<close>

theorem list_routes_are_reads:
  assumes "r \<in> {ListShipments, ListActiveShipments, ListIncidents, ListOpenIncidents}"
  shows "agent_global (snd (handle E r st)) = agent_global st
       \<and> (world st' = world st \<longrightarrow> fst (handle E r st') = fst (handle E r st))
       \<and> (\<exists>c. calls (snd (handle E r st)) = calls st @ [c] \<and> \<not> is_constructor c
              \<and> (\<forall>v w'. collaborator E c (world st) = (Inr v, w')
                         \<longrightarrow> fst (handle E r st) = Inr (Response 200 v)))"
  using assms
  by (auto simp: get_shipments_def get_active_shipments_def get_incidents_def
                 get_open_incidents_def jsonify_200_def invoke_def
           split: prod.splits sum.splits)

theorem list_routes_are_reads_witness:
  "ListShipments \<in> {ListShipments, ListActiveShipments, ListIncidents, ListOpenIncidents}
 \<and> world (fresh\<lparr>agent_global := Some 1, calls := [Call_get_all_shipments]\<rparr>) = world fresh
 \<and> fst (handle (stub_env (Inr (JArr []))) ListShipments
          (fresh\<lparr>agent_global := Some 1, calls := [Call_get_all_shipments]\<rparr>))
     = fst (handle (stub_env (Inr (JArr []))) ListShipments fresh)
 \<and> fst (handle (stub_env (Inr (JArr []))) ListShipments fresh) = Inr (Response 200 (JArr []))
 \<and> agent_global (snd (handle (stub_env (Inr (JArr []))) ListShipments fresh)) = agent_global fresh"
proof -
  let ?E = "stub_env (Inr (JArr []))"
  let ?st' = "fresh\<lparr>agent_global := Some 1, calls := [Call_get_all_shipments]\<rparr>"
  have m: "ListShipments \<in> {ListShipments, ListActiveShipments, ListIncidents, ListOpenIncidents}"
    by simp
  have w: "world ?st' = world fresh" by simp
  have c: "collaborator ?E c (world fresh) = (Inr (JArr []), 1)" for c
    by (simp add: stub_env_def fresh_def)
  note t = list_routes_are_reads [OF m, of ?E fresh ?st']
  from t w have same: "fst (handle ?E ListShipments ?st') = fst (handle ?E ListShipments fresh)"
    by blast
  from t c have ok: "fst (handle ?E ListShipments fresh) = Inr (Response 200 (JArr []))"
    by blast
  from t have kept: "agent_global (snd (handle ?E ListShipments fresh)) = agent_global fresh"
    by blast
  from m w same ok kept show ?thesis by blast
qed

section \<open>The agent handle\<close>

lemma agent_handle_frame:
  "(agent_global st = Some a \<longrightarrow> get_agent E st = (Inr a, st))
 \<and> (agent_global st = None \<longrightarrow>
      (\<exists>r w'. new_agent E (case environ E ''GEMINI_API_KEY'' of
                              None \<Rightarrow> GEMINI_API_KEY | Some k \<Rightarrow> k) (world st) = (r, w')
         \<and> get_agent E st =
             (r, st\<lparr>calls := calls st @
                       [Call_AutonomousOrchestratorAgent
                          (case environ E ''GEMINI_API_KEY'' of
                             None \<Rightarrow> GEMINI_API_KEY | Some k \<Rightarrow> k)],
                    world := w',
                    agent_global := (case r of Inl e \<Rightarrow> None | Inr a' \<Rightarrow> Some a')\<rparr>)))
 \<and> (agent_global (serve E rs st) = Some a \<longrightarrow>
      agent_global (serve E (rs @ rs') st) = Some a
      \<and> filter is_constructor (calls (serve E (rs @ rs') st))
          = filter is_constructor (calls (serve E rs st)))
 \<and> (\<not> has_try q \<longrightarrow>
      agent_global (snd (handle E q st)) = agent_global st
      \<and> filter is_constructor (calls (snd (handle E q st))) = filter is_constructor (calls st))"
proof -
  have g1: "agent_global st = Some a \<longrightarrow> get_agent E st = (Inr a, st)"
    by (simp add: get_agent_Some)
  have g2: "agent_global st = None \<longrightarrow>
      (\<exists>r w'. new_agent E (case environ E ''GEMINI_API_KEY'' of
                              None \<Rightarrow> GEMINI_API_KEY | Some k \<Rightarrow> k) (world st) = (r, w')
         \<and> get_agent E st =
             (r, st\<lparr>calls := calls st @
                       [Call_AutonomousOrchestratorAgent
                          (case environ E ''GEMINI_API_KEY'' of
                             None \<Rightarrow> GEMINI_API_KEY | Some k \<Rightarrow> k)],
                    world := w',
                    agent_global := (case r of Inl e \<Rightarrow> None | Inr a' \<Rightarrow> Some a')\<rparr>))"
  proof
    assume n: "agent_global st = None"
    obtain r w' where nw: "new_agent E (api_key_of E) (world st) = (r, w')"
      by (cases "new_agent E (api_key_of E) (world st)")
    from get_agent_None [OF n nw] nw show "\<exists>r w'. new_agent E (case environ E ''GEMINI_API_KEY'' of
                              None \<Rightarrow> GEMINI_API_KEY | Some k \<Rightarrow> k) (world st) = (r, w')
         \<and> get_agent E st =
             (r, st\<lparr>calls := calls st @
                       [Call_AutonomousOrchestratorAgent
                          (case environ E ''GEMINI_API_KEY'' of
                             None \<Rightarrow> GEMINI_API_KEY | Some k \<Rightarrow> k)],
                    world := w',
                    agent_global := (case r of Inl e \<Rightarrow> None | Inr a' \<Rightarrow> Some a')\<rparr>)"
      unfolding api_key_of_def by blast
  qed
  have g3: "agent_global (serve E rs st) = Some a \<longrightarrow>
      agent_global (serve E (rs @ rs') st) = Some a
      \<and> filter is_constructor (calls (serve E (rs @ rs') st))
          = filter is_constructor (calls (serve E rs st))"
    using serve_keeps_agent [of "serve E rs st" a E rs'] by (simp add: serve_append)
  have g4: "\<not> has_try q \<longrightarrow>
      agent_global (snd (handle E q st)) = agent_global st
      \<and> filter is_constructor (calls (snd (handle E q st))) = filter is_constructor (calls st)"
  proof -
    obtain out st' where h: "handle E q st = (out, st')" by (cases "handle E q st")
    from handle_frame [OF h] h show ?thesis by auto
  qed
  from g1 g2 g3 g4 show ?thesis by blast
qed

section \<open>Weather\<close>

lemma float_arg_Some_iff:
  "float_arg E args k d = Some x \<longleftrightarrow>
     (map_of args k = None \<and> x = d) \<or> (\<exists>s. map_of args k = Some s \<and> py_float E s = Some x)"
  by (cases "map_of args k") (auto simp: float_arg_def)

lemma float_arg_None_iff:
  "float_arg E args k d = None \<longleftrightarrow> (\<exists>s. map_of args k = Some s \<and> py_float E s = None)"
  by (cases "map_of args k") (auto simp: float_arg_def)

lemma get_weather_parsed:
  assumes "float_arg E args ''lat'' 12.9716 = Some lat"
      and "float_arg E args ''lng'' 77.5946 = Some lng"
      and "collaborator E (Call_get_weather lat lng) (world st) = (Inr v, w')"
  shows "get_weather E args st
           = (Inr (Response 200 v), st\<lparr>world := w', calls := calls st @ [Call_get_weather lat lng]\<rparr>)"
  using assms by (simp add: get_weather_def jsonify_200_def invoke_def)

lemma get_weather_unparsed:
  assumes "float_arg E args ''lat'' 12.9716 = None \<or> float_arg E args ''lng'' 77.5946 = None"
  shows "get_weather E args st
           = (Inr (Response 400 (JObj [(''error'', JStr ''lat/lng must be numeric.'')])), st)"
  using assms by (auto simp: get_weather_def error_body_def split: option.splits)

text \<open>
  C7. An absent \<^verbatim>\<open>lat\<close> stands for 12.9716 and an absent \<^verbatim>\<open>lng\<close> for 77.5946; when
  each argument is absent or parses, the weather service is called once with the resulting
  pair and, if it returns, the response is 200 with its value. When a supplied \<^verbatim>\<open>lat\<close> or
  \<^verbatim>\<open>lng\<close> does not parse, the response is 400 and nothing is called.
\<close>

theorem get_weather_defaults_and_rejects:
  "((map_of args ''lat'' = None \<and> lat = 12.9716
       \<or> (\<exists>s. map_of args ''lat'' = Some s \<and> py_float E s = Some lat))
    \<and> (map_of args ''lng'' = None \<and> lng = 77.5946
       \<or> (\<exists>s. map_of args ''lng'' = Some s \<and> py_float E s = Some lng))
    \<and> collaborator E (Call_get_weather lat lng) (world st) = (Inr v, w')
    \<longrightarrow> get_weather E args st
          = (Inr (Response 200 v),
             st\<lparr>world := w', calls := calls st @ [Call_get_weather lat lng]\<rparr>))
 \<and> ((\<exists>s. map_of args ''lat'' = Some s \<and> py_float E s = None)
    \<or> (\<exists>s. map_of args ''lng'' = Some s \<and> py_float E s = None)
    \<longrightarrow> get_weather E args st
          = (Inr (Response 400 (JObj [(''error'', JStr ''lat/lng must be numeric.'')])), st))"
proof (intro conjI impI)
  assume h: "(map_of args ''lat'' = None \<and> lat = 12.9716
       \<or> (\<exists>s. map_of args ''lat'' = Some s \<and> py_float E s = Some lat))
    \<and> (map_of args ''lng'' = None \<and> lng = 77.5946
       \<or> (\<exists>s. map_of args ''lng'' = Some s \<and> py_float E s = Some lng))
    \<and> collaborator E (Call_get_weather lat lng) (world st) = (Inr v, w')"
  from h have "float_arg E args ''lat'' 12.9716 = Some lat"
    unfolding float_arg_Some_iff by blast
  moreover from h have "float_arg E args ''lng'' 77.5946 = Some lng"
    unfolding float_arg_Some_iff by blast
  moreover from h have "collaborator E (Call_get_weather lat lng) (world st) = (Inr v, w')"
    by blast
  ultimately show "get_weather E args st
          = (Inr (Response 200 v),
             st\<lparr>world := w', calls := calls st @ [Call_get_weather lat lng]\<rparr>)"
    by (rule get_weather_parsed)
next
  assume "(\<exists>s. map_of args ''lat'' = Some s \<and> py_float E s = None)
    \<or> (\<exists>s. map_of args ''lng'' = Some s \<and> py_float E s = None)"
  then have "float_arg E args ''lat'' 12.9716 = None \<or> float_arg E args ''lng'' 77.5946 = None"
    unfolding float_arg_None_iff by blast
  then show "get_weather E args st
          = (Inr (Response 400 (JObj [(''error'', JStr ''lat/lng must be numeric.'')])), st)"
    by (rule get_weather_unparsed)
qed

theorem get_weather_defaults_and_rejects_witness:
  "get_weather (stub_env (Inr (JObj [(''conditions'', JStr ''clear'')]))) [] fresh
     = (Inr (Response 200 (JObj [(''conditions'', JStr ''clear'')])),
        fresh\<lparr>world := 1, calls := [Call_get_weather 12.9716 77.5946]\<rparr>)
 \<and> get_weather (stub_env (Inr (JObj [(''conditions'', JStr ''clear'')]))) [(''lat'', ''12.5'')] fresh
     = (Inr (Response 200 (JObj [(''conditions'', JStr ''clear'')])),
        fresh\<lparr>world := 1, calls := [Call_get_weather 12.5 77.5946]\<rparr>)
 \<and> get_weather (stub_env (Inr (JObj [(''conditions'', JStr ''clear'')]))) [(''lat'', ''abc'')] fresh
     = (Inr (Response 400 (JObj [(''error'', JStr ''lat/lng must be numeric.'')])), fresh)"
proof -
  let ?E = "stub_env (Inr (JObj [(''conditions'', JStr ''clear'')]))"
  have c: "collaborator ?E (Call_get_weather x y) (world fresh)
             = (Inr (JObj [(''conditions'', JStr ''clear'')]), 1)" for x y
    by (simp add: stub_env_def fresh_def)
  have n: "map_of ([] :: (string \<times> string) list) k = None" for k by simp
  have l: "map_of [(''lat'', ''12.5'')] ''lat'' = Some ''12.5''"
          "map_of [(''lat'', ''12.5'')] ''lng'' = None"
          "py_float ?E ''12.5'' = Some 12.5"
    by (simp_all add: stub_env_def)
  have b: "map_of [(''lat'', ''abc'')] ''lat'' = Some ''abc''" "py_float ?E ''abc'' = None"
    by (simp_all add: stub_env_def)
  note w = get_weather_defaults_and_rejects
  from w [of "[]" "12.9716" ?E "77.5946" fresh "JObj [(''conditions'', JStr ''clear'')]" 1] n c
  have 1: "get_weather ?E [] fresh
     = (Inr (Response 200 (JObj [(''conditions'', JStr ''clear'')])),
        fresh\<lparr>world := 1, calls := calls fresh @ [Call_get_weather 12.9716 77.5946]\<rparr>)"
    by blast
  from w [of "[(''lat'', ''12.5'')]" "12.5" ?E "77.5946" fresh
            "JObj [(''conditions'', JStr ''clear'')]" 1] l c
  have 2: "get_weather ?E [(''lat'', ''12.5'')] fresh
     = (Inr (Response 200 (JObj [(''conditions'', JStr ''clear'')])),
        fresh\<lparr>world := 1, calls := calls fresh @ [Call_get_weather 12.5 77.5946]\<rparr>)"
    by blast
  from w [of "[(''lat'', ''abc'')]" _ ?E _ fresh] b
  have 3: "get_weather ?E [(''lat'', ''abc'')] fresh
     = (Inr (Response 400 (JObj [(''error'', JStr ''lat/lng must be numeric.'')])), fresh)"
    by blast
  have e: "calls fresh = []" by (simp add: fresh_def)
  from 1 2 3 show ?thesis unfolding e append_Nil by blast
qed

section \<open>Strings\<close>

lemma strip_eq_Nil_iff: "strip s = [] \<longleftrightarrow> (\<forall>c \<in> set s. is_space c)"
proof -
  have "(\<forall>x \<in> set (dropWhile is_space s). is_space x) \<longleftrightarrow> dropWhile is_space s = []"
    by (metis empty_iff hd_dropWhile list.set(1) list.set_sel(1))
  then show ?thesis by (simp add: strip_def dropWhile_eq_Nil_conv)
qed

lemma upper_puncture: "upper ''puncture'' = map of_char ''PUNCTURE''"
  by code_simp



lemma strip_splits:
  assumes "strip s \<noteq> []"
  shows "\<exists>pre post. s = pre @ strip s @ post \<and> (\<forall>c \<in> set pre \<union> set post. is_space c)
           \<and> \<not> is_space (hd (strip s)) \<and> \<not> is_space (last (strip s))"
proof -
  let ?d = "dropWhile is_space s"
  let ?pre = "takeWhile is_space s"
  let ?post = "rev (takeWhile is_space (rev ?d))"
  have d: "?d = strip s @ ?post"
  proof -
    have "rev (takeWhile is_space (rev ?d) @ dropWhile is_space (rev ?d)) = ?d"
      by (simp only: takeWhile_dropWhile_id rev_rev_ident)
    then have "rev (dropWhile is_space (rev ?d)) @ rev (takeWhile is_space (rev ?d)) = ?d"
      by (simp only: rev_append)
    then show ?thesis by (simp only: strip_def)
  qed
  have s: "s = ?pre @ strip s @ ?post"
    using d takeWhile_dropWhile_id [of is_space s] by simp
  have w: "\<forall>c \<in> set ?pre \<union> set ?post. is_space c"
    by (auto dest: set_takeWhileD)
  have l: "\<not> is_space (last (strip s))"
  proof -
    from assms have ne: "dropWhile is_space (rev ?d) \<noteq> []" by (simp add: strip_def)
    then have "\<not> is_space (hd (dropWhile is_space (rev ?d)))" by (rule hd_dropWhile)
    moreover have "last (strip s) = hd (dropWhile is_space (rev ?d))"
      using ne by (simp add: strip_def last_rev)
    ultimately show ?thesis by simp
  qed
  have h: "\<not> is_space (hd (strip s))"
  proof -
    have ne: "?d \<noteq> []"
    proof
      assume "?d = []"
      with d have "strip s @ ?post = []" by (simp only:)
      with assms show False by simp
    qed
    then have "\<not> is_space (hd ?d)" by (rule hd_dropWhile)
    moreover from assms d have "hd ?d = hd (strip s)" by (metis hd_append2)
    ultimately show ?thesis by simp
  qed
  from s w h l show ?thesis by blast
qed



lemma upper_ascii:
  "\<forall>c \<in> set t. of_char c < (128::nat) \<Longrightarrow>
   upper t = map (\<lambda>c. if 97 \<le> (of_char c :: nat) \<and> (of_char c :: nat) \<le> 122
                        then of_char c - 32 else of_char c) t"
  by (induction t) (auto simp: upper_def upper_cp_def Let_def)

lemma upper_latin1: "upper (''caf'' @ [CHR 0xE9]) = [67, 65, 70, 201]"
                    "upper [CHR 0xDF] = [83, 83]"
  by (simp_all add: upper_def upper_cp_def)

section \<open>Reporting an incident\<close>

lemma missing_field_finds:
  assumes "k \<in> set ks"
      and "map_of kvs k = None \<or> (\<exists>v. map_of kvs k = Some v \<and> \<not> truthy v)"
  shows "\<exists>k' \<in> set ks. missing_field kvs ks = Some k'"
  using assms by (induction ks) auto

lemma missing_field_all_truthy:
  "(\<forall>k \<in> set ks. \<exists>v. map_of kvs k = Some v \<and> truthy v) \<Longrightarrow>
   missing_field kvs ks = None"
  by (induction ks) auto

lemma report_incident_delegates:
  assumes sid: "map_of kvs ''shipment_id'' = Some sid" "truthy sid"
      and vid: "map_of kvs ''vehicle_id'' = Some vid" "truthy vid"
      and kind: "map_of kvs ''incident_type'' = Some (JStr t)" "t \<noteq> []"
      and dsc: "map_of kvs ''description'' = Some d" "truthy d"
      and agent: "get_agent E st = (Inr a, st1)"
      and outcome: "collaborator E (Call_report_incident sid vid (upper t) d (agent_model E a))
                      (world st1) = (r, w')"
  shows "report_incident E (JObj kvs) st =
           (Inr (case r of
                   Inr result \<Rightarrow> Response 200 result
                 | Inl e \<Rightarrow> Response 500 (JObj [(''error'', JStr (exn_str e))])),
            st1\<lparr>world := w',
                calls := calls st1 @
                  [Call_report_incident sid vid (upper t) d (agent_model E a)]\<rparr>)"
proof -
  have m: "missing_field kvs required = None"
    using sid vid kind dsc by (simp add: required_def)
  have a: "report_args E kvs a
             = Inr (Call_report_incident sid vid (upper t) d (agent_model E a))"
    using sid vid kind dsc by (simp add: report_args_def dict_item_def)
  show ?thesis
    using m a agent outcome
    by (simp add: report_incident_def or_empty_dict_obj invoke_eq report_except_def error_body_def
             split: sum.splits)
qed

lemma report_args_shape:
  assumes "map_of kvs ''shipment_id'' = Some sid" "map_of kvs ''vehicle_id'' = Some vid"
      and "map_of kvs ''incident_type'' = Some it" "map_of kvs ''description'' = Some d"
      and "report_args E kvs a = Inr c"
  shows "\<exists>t. it = JStr t \<and> c = Call_report_incident sid vid (upper t) d (agent_model E a)"
  using assms by (cases it) (auto simp: report_args_def dict_item_def)

lemma report_incident_calls:
  assumes "map_of kvs ''shipment_id'' = Some sid" "map_of kvs ''vehicle_id'' = Some vid"
      and "map_of kvs ''incident_type'' = Some it" "map_of kvs ''description'' = Some d"
  shows "\<exists>cs. calls (snd (report_incident E (JObj kvs) st)) = calls st @ cs
            \<and> (\<forall>c \<in> set cs. is_constructor c
                  \<or> (\<exists>t a. it = JStr t
                        \<and> c = Call_report_incident sid vid (upper t) d (agent_model E a)))"
proof (cases "missing_field kvs required")
  case (Some k)
  then show ?thesis by (simp add: report_incident_def or_empty_dict_obj)
next
    case None
    obtain ra st1 where g: "get_agent E st = (ra, st1)" by (cases "get_agent E st")
    from get_agent_frame [OF g] obtain cs0 where
      cs0: "calls st1 = calls st @ cs0" "filter (\<lambda>c. \<not> is_constructor c) cs0 = []"
      by blast
    then have ctor: "\<forall>c \<in> set cs0. is_constructor c"
      by (simp add: filter_empty_conv)
    show ?thesis
    proof (cases ra)
      case (Inl e)
      with None g cs0 ctor show ?thesis
        by (auto simp: report_incident_def or_empty_dict_obj)
    next
      case a: (Inr a)
      show ?thesis
      proof (cases "report_args E kvs a")
        case (Inl e)
        with None g a cs0 ctor show ?thesis
          by (auto simp: report_incident_def or_empty_dict_obj)
      next
        case c: (Inr c)
        from report_args_shape [OF assms c] obtain t where
          t: "it = JStr t" "c = Call_report_incident sid vid (upper t) d (agent_model E a)"
          by blast
        have "calls (snd (report_incident E (JObj kvs) st)) = calls st @ (cs0 @ [c])"
          using None g a c cs0
          by (simp add: report_incident_def or_empty_dict_obj invoke_def
                   split: prod.splits sum.splits)
        moreover have "\<forall>c' \<in> set (cs0 @ [c]). is_constructor c'
                  \<or> (\<exists>t a. it = JStr t
                        \<and> c' = Call_report_incident sid vid (upper t) d (agent_model E a))"
          using ctor t by auto
        ultimately show ?thesis by blast
      qed
    qed
qed

lemma report_incident_not_a_string:
  assumes sid: "map_of kvs ''shipment_id'' = Some sid" "truthy sid"
      and vid: "map_of kvs ''vehicle_id'' = Some vid" "truthy vid"
      and kind: "map_of kvs ''incident_type'' = Some it" "truthy it" "\<forall>t. it \<noteq> JStr t"
      and dsc: "map_of kvs ''description'' = Some d" "truthy d"
      and agent: "get_agent E st = (Inr a, st1)"
  shows "report_incident E (JObj kvs) st =
           (Inr (Response 500
                   (JObj [(''error'',
                           JStr (quoted (type_name it) @ '' object has no attribute ''
                                 @ quoted ''upper''))])),
            st1)"
proof -
  have m: "missing_field kvs required = None"
    using sid vid kind dsc by (simp add: required_def)
  have u: "method_upper it = Inl (no_attribute it ''upper'')"
    using kind(3) by (cases it) simp_all
  have a: "report_args E kvs a = Inl (no_attribute it ''upper'')"
    using sid vid kind dsc u by (simp add: report_args_def dict_item_def)
  show ?thesis
    using m a agent
    by (simp add: report_incident_def or_empty_dict_obj report_except_def error_body_def
                  no_attribute_def)
qed

text \<open>
  C5, as stated, fails: with an incident type of 5 the four required fields are present
  and not empty, yet nothing is passed to the incident collaborator. Line 157 raises
  \<^verbatim>\<open>AttributeError\<close>, and lines 162 to 164 answer 500.
\<close>

theorem report_incident_number_type:
  "report_incident (stub_env (Inr JNull))
     (JObj [(''shipment_id'', JStr ''SHP-1''), (''vehicle_id'', JStr ''V2''),
            (''incident_type'', JInt 5), (''description'', JStr ''tyre burst'')])
     fresh
   = (Inr (Response 500
             (JObj [(''error'',
                     JStr (quoted ''int'' @ '' object has no attribute '' @ quoted ''upper''))])),
      \<lparr>agent_global = Some 1, world = 0,
       calls = [Call_AutonomousOrchestratorAgent GEMINI_API_KEY]\<rparr>)"
  by (simp add: report_incident_def or_empty_dict_def required_def get_agent_def
                construct_agent_def api_key_of_def report_args_def dict_item_def report_except_def
                error_body_def no_attribute_def stub_env_def fresh_def)

text \<open>
  C5, amended. Take a request whose four required fields are present and truthy, served
  once the agent handle is there. When the incident type is a string, the incident
  collaborator is called once, with the incident type in upper case and the shipment id,
  vehicle id and description as they came, on the state the collaborators had when the
  arguments were complete; its outcome decides the response, 200 with the result or 500
  with the text of the exception. When the incident type is not a string, nothing is
  passed on and the response is 500. Upper case, on ASCII text, replaces each of a to z by
  the letter 32 code points below and leaves every other character alone.
\<close>

theorem report_incident_passes_upper:
  assumes sid: "map_of kvs ''shipment_id'' = Some sid" "truthy sid"
      and vid: "map_of kvs ''vehicle_id'' = Some vid" "truthy vid"
      and kind: "map_of kvs ''incident_type'' = Some it" "truthy it"
      and dsc: "map_of kvs ''description'' = Some d" "truthy d"
      and agent: "get_agent E st = (Inr a, st1)"
  shows "(\<forall>t r w'.
            it = JStr t
            \<and> collaborator E (Call_report_incident sid vid (upper t) d (agent_model E a))
                (world st1) = (r, w')
            \<longrightarrow> report_incident E (JObj kvs) st =
                  (Inr (case r of
                          Inr result \<Rightarrow> Response 200 result
                        | Inl e \<Rightarrow> Response 500 (JObj [(''error'', JStr (exn_str e))])),
                   st1\<lparr>world := w',
                       calls := calls st1 @
                         [Call_report_incident sid vid (upper t) d (agent_model E a)]\<rparr>))
       \<and> ((\<forall>t. it \<noteq> JStr t)
            \<longrightarrow> report_incident E (JObj kvs) st =
                  (Inr (Response 500
                          (JObj [(''error'',
                                  JStr (quoted (type_name it) @ '' object has no attribute ''
                                        @ quoted ''upper''))])),
                   st1))
       \<and> (\<forall>t. (\<forall>c \<in> set t. of_char c < (128::nat))
            \<longrightarrow> upper t = map (\<lambda>c. if 97 \<le> (of_char c :: nat) \<and> (of_char c :: nat) \<le> 122
                                      then of_char c - 32 else of_char c) t)"
proof (intro conjI allI impI)
  fix t r w'
  assume h: "it = JStr t
            \<and> collaborator E (Call_report_incident sid vid (upper t) d (agent_model E a))
                (world st1) = (r, w')"
  with kind have k: "map_of kvs ''incident_type'' = Some (JStr t)" "t \<noteq> []" by auto
  from h have c: "collaborator E (Call_report_incident sid vid (upper t) d (agent_model E a))
                    (world st1) = (r, w')"
    by simp
  show "report_incident E (JObj kvs) st =
                  (Inr (case r of
                          Inr result \<Rightarrow> Response 200 result
                        | Inl e \<Rightarrow> Response 500 (JObj [(''error'', JStr (exn_str e))])),
                   st1\<lparr>world := w',
                       calls := calls st1 @
                         [Call_report_incident sid vid (upper t) d (agent_model E a)]\<rparr>)"
    by (rule report_incident_delegates [OF sid vid k dsc agent c])
next
  assume n: "\<forall>t. it \<noteq> JStr t"
  show "report_incident E (JObj kvs) st =
                  (Inr (Response 500
                          (JObj [(''error'',
                                  JStr (quoted (type_name it) @ '' object has no attribute ''
                                        @ quoted ''upper''))])),
                   st1)"
    by (rule report_incident_not_a_string [OF sid vid kind n dsc agent])
next
  fix t :: string
  assume "\<forall>c \<in> set t. of_char c < (128::nat)"
  then show "upper t = map (\<lambda>c. if 97 \<le> (of_char c :: nat) \<and> (of_char c :: nat) \<le> 122
                                      then of_char c - 32 else of_char c) t"
    by (rule upper_ascii)
qed

theorem report_incident_passes_upper_witness:
  "report_incident (stub_env (Inr (JObj [(''incident_id'', JStr ''INC-1'')])))
     (JObj [(''shipment_id'', JStr ''SHP-1''), (''vehicle_id'', JStr ''V2''),
            (''incident_type'', JStr ''puncture''), (''description'', JStr ''tyre burst'')])
     fresh
   = (Inr (Response 200 (JObj [(''incident_id'', JStr ''INC-1'')])),
      \<lparr>agent_global = Some 1, world = 1,
       calls = [Call_AutonomousOrchestratorAgent GEMINI_API_KEY,
                Call_report_incident (JStr ''SHP-1'') (JStr ''V2'') (map of_char ''PUNCTURE'')
                  (JStr ''tyre burst'') 1]\<rparr>)
 \<and> report_incident (stub_env (Inr (JObj [(''incident_id'', JStr ''INC-1'')])))
     (JObj [(''shipment_id'', JStr ''SHP-1''), (''vehicle_id'', JStr ''V2''),
            (''incident_type'', JArr [JStr ''puncture'']), (''description'', JStr ''tyre burst'')])
     fresh
   = (Inr (Response 500
             (JObj [(''error'',
                     JStr (quoted ''list'' @ '' object has no attribute '' @ quoted ''upper''))])),
      \<lparr>agent_global = Some 1, world = 0,
       calls = [Call_AutonomousOrchestratorAgent GEMINI_API_KEY]\<rparr>)
 \<and> upper ''puncture'' = map of_char ''PUNCTURE''"
proof -
  let ?E = "stub_env (Inr (JObj [(''incident_id'', JStr ''INC-1'')]))"
  let ?k1 = "[(''shipment_id'', JStr ''SHP-1''), (''vehicle_id'', JStr ''V2''),
              (''incident_type'', JStr ''puncture''), (''description'', JStr ''tyre burst'')]"
  let ?k2 = "[(''shipment_id'', JStr ''SHP-1''), (''vehicle_id'', JStr ''V2''),
              (''incident_type'', JArr [JStr ''puncture'']),
              (''description'', JStr ''tyre burst'')]"
  let ?st1 = "\<lparr>agent_global = Some (1::nat), world = (0::nat),
               calls = [Call_AutonomousOrchestratorAgent GEMINI_API_KEY :: (nat, nat) call]\<rparr>"
  have f1: "map_of ?k1 ''shipment_id'' = Some (JStr ''SHP-1'')" "truthy (JStr ''SHP-1'')"
           "map_of ?k1 ''vehicle_id'' = Some (JStr ''V2'')" "truthy (JStr ''V2'')"
           "map_of ?k1 ''incident_type'' = Some (JStr ''puncture'')" "truthy (JStr ''puncture'')"
           "map_of ?k1 ''description'' = Some (JStr ''tyre burst'')" "truthy (JStr ''tyre burst'')"
    by simp_all
  have f2: "map_of ?k2 ''shipment_id'' = Some (JStr ''SHP-1'')" "truthy (JStr ''SHP-1'')"
           "map_of ?k2 ''vehicle_id'' = Some (JStr ''V2'')" "truthy (JStr ''V2'')"
           "map_of ?k2 ''incident_type'' = Some (JArr [JStr ''puncture''])"
           "truthy (JArr [JStr ''puncture''])"
           "map_of ?k2 ''description'' = Some (JStr ''tyre burst'')" "truthy (JStr ''tyre burst'')"
    by simp_all
  have g: "get_agent ?E fresh = (Inr 1, ?st1)"
    by (simp add: get_agent_def construct_agent_def stub_env_def fresh_def api_key_of_def)
  have c: "collaborator ?E
             (Call_report_incident (JStr ''SHP-1'') (JStr ''V2'') (upper ''puncture'')
                (JStr ''tyre burst'') (agent_model ?E 1)) (world ?st1)
             = (Inr (JObj [(''incident_id'', JStr ''INC-1'')]), 1)"
    by (simp add: stub_env_def)
  have n: "\<forall>t. JArr [JStr ''puncture''] \<noteq> JStr t" by simp
  have asc: "\<forall>c \<in> set ''puncture''. of_char c < (128::nat)" by simp
  note w1 = report_incident_passes_upper [OF f1 g]
  note w2 = report_incident_passes_upper [OF f2 g]
  from w1 c have 1: "report_incident ?E (JObj ?k1) fresh =
          (Inr (case Inr (JObj [(''incident_id'', JStr ''INC-1'')]) :: exn + json of
                  Inr result \<Rightarrow> Response 200 result
                | Inl e \<Rightarrow> Response 500 (JObj [(''error'', JStr (exn_str e))])),
           ?st1\<lparr>world := 1,
                calls := calls ?st1 @
                  [Call_report_incident (JStr ''SHP-1'') (JStr ''V2'') (upper ''puncture'')
                     (JStr ''tyre burst'') (agent_model ?E 1)]\<rparr>)"
    by blast
  from w2 n have 2: "report_incident ?E (JObj ?k2) fresh =
          (Inr (Response 500
                  (JObj [(''error'',
                          JStr (quoted (type_name (JArr [JStr ''puncture'']))
                                @ '' object has no attribute '' @ quoted ''upper''))])),
           ?st1)"
    by blast
  from w1 asc have 3: "upper ''puncture''
        = map (\<lambda>c. if 97 \<le> (of_char c :: nat) \<and> (of_char c :: nat) \<le> 122
                    then of_char c - 32 else of_char c) ''puncture''"
    by blast
  have u: "upper ''puncture'' = map of_char ''PUNCTURE''"
    unfolding 3 by simp
  from 1 2 u show ?thesis
    by (simp add: stub_env_def)
qed

section \<open>When the agent handle is created\<close>

lemma plan_without_orders:
  assumes "map_of kvs ''orders'' = None \<or> (\<exists>v. map_of kvs ''orders'' = Some v \<and> \<not> truthy v)"
  shows "snd (plan_logistics E (JObj kvs) st) = st"
  using assms by (auto simp: plan_logistics_def or_empty_dict_obj)

lemma report_without_field:
  assumes "\<exists>k \<in> {''shipment_id'', ''vehicle_id'', ''incident_type'', ''description''}.
             map_of fs k = None \<or> (\<exists>v. map_of fs k = Some v \<and> \<not> truthy v)"
  shows "snd (report_incident E (JObj fs) st) = st"
proof -
  from assms obtain k where "k \<in> set required"
      and "map_of fs k = None \<or> (\<exists>v. map_of fs k = Some v \<and> \<not> truthy v)"
    by (auto simp: required_def)
  from missing_field_finds [OF this] obtain k'
    where "missing_field fs required = Some k'" by blast
  then show ?thesis by (simp add: report_incident_def or_empty_dict_obj)
qed

lemma construct_agent_eq:
  assumes "new_agent E (api_key_of E) (world st) = (r, w')"
  shows "construct_agent E st =
           (r, st\<lparr>calls := calls st @ [Call_AutonomousOrchestratorAgent (api_key_of E)],
                  world := w',
                  agent_global := (case r of Inl e \<Rightarrow> agent_global st | Inr a \<Rightarrow> Some a)\<rparr>)"
  using assms by (cases r) (simp_all add: construct_agent_def)

lemma plan_constructs:
  assumes n: "agent_global st = None"
      and o: "map_of kvs ''orders'' = Some os" "truthy os"
      and c: "new_agent E (api_key_of E) (world st) = (r, w')"
  shows "agent_global (snd (plan_logistics E (JObj kvs) st))
           = (case r of Inl e \<Rightarrow> None | Inr a \<Rightarrow> Some a)
       \<and> filter is_constructor (calls (snd (plan_logistics E (JObj kvs) st)))
           = filter is_constructor (calls st) @ [Call_AutonomousOrchestratorAgent (api_key_of E)]"
  using n o get_agent_None [OF n c]
  by (cases r) (auto simp: plan_logistics_def or_empty_dict_obj invoke_def
                     split: prod.splits sum.splits)

lemma report_constructs:
  assumes n: "agent_global st = None"
      and f: "\<forall>k \<in> {''shipment_id'', ''vehicle_id'', ''incident_type'', ''description''}.
                \<exists>v. map_of fs k = Some v \<and> truthy v"
      and c: "new_agent E (api_key_of E) (world st) = (r, w')"
  shows "agent_global (snd (report_incident E (JObj fs) st))
           = (case r of Inl e \<Rightarrow> None | Inr a \<Rightarrow> Some a)
       \<and> filter is_constructor (calls (snd (report_incident E (JObj fs) st)))
           = filter is_constructor (calls st) @ [Call_AutonomousOrchestratorAgent (api_key_of E)]"
proof -
  have m: "missing_field fs required = None"
    using f by (intro missing_field_all_truthy) (simp add: required_def)
  show ?thesis
  proof (cases r)
    case (Inl e)
    with m get_agent_None [OF n c] show ?thesis
      by (simp add: report_incident_def or_empty_dict_obj)
  next
    case (Inr a)
    show ?thesis
    proof (cases "report_args E fs a")
      case (Inl e)
      with m Inr get_agent_None [OF n c] show ?thesis
        by (simp add: report_incident_def or_empty_dict_obj)
    next
      case call: (Inr k)
      from f obtain sid vid it d where
        "map_of fs ''shipment_id'' = Some sid" "map_of fs ''vehicle_id'' = Some vid"
        "map_of fs ''incident_type'' = Some it" "map_of fs ''description'' = Some d"
        by auto
      from report_args_shape [OF this call] have "\<not> is_constructor k" by auto
      with m Inr call get_agent_None [OF n c] show ?thesis
        by (simp add: report_incident_def or_empty_dict_obj invoke_def
                 split: prod.splits sum.splits)
    qed
  qed
qed

text \<open>
  C8, as stated, fails on two counts. The handle is not created on the first Plan
  request when that request has no orders: nothing is constructed then, and the handle is
  created by a later request. And ``at most once'' rests on \<^verbatim>\<open>_get_agent\<close> running
  without interruption: when two requests have both passed the test of line 39 before
  either has assigned, lines 40 to 42 run twice, the constructor is called twice, and the
  second agent replaces the first.
\<close>

theorem agent_handle_built_late_or_twice:
  "serve (stub_env (Inr JNull)) [Plan (JObj [(''orders'', JArr [])])] fresh = fresh
 \<and> agent_global (serve (stub_env (Inr JNull))
                   [Plan (JObj [(''orders'', JArr [])]),
                    Plan (JObj [(''orders'', JArr [JStr ''O001''])])] fresh) = Some 1
 \<and> agent_global fresh = None
 \<and> construct_agent numbering_env fresh
     = (Inr 0, \<lparr>agent_global = Some 0, world = 1,
                calls = [Call_AutonomousOrchestratorAgent GEMINI_API_KEY]\<rparr>)
 \<and> construct_agent numbering_env
       \<lparr>agent_global = Some 0, world = 1,
        calls = [Call_AutonomousOrchestratorAgent GEMINI_API_KEY]\<rparr>
     = (Inr 1, \<lparr>agent_global = Some 1, world = 2,
                calls = [Call_AutonomousOrchestratorAgent GEMINI_API_KEY,
                         Call_AutonomousOrchestratorAgent GEMINI_API_KEY]\<rparr>)"
  by (simp add: plan_logistics_def or_empty_dict_def get_agent_def construct_agent_def
                api_key_of_def invoke_def stub_env_def numbering_env_def fresh_def)

text \<open>
  C8, amended. The only variable the handlers keep between requests is the agent handle.
  In what follows \<^verbatim>\<open>_get_agent\<close> runs without interruption and requests are served one
  after another. With a handle stored, \<^verbatim>\<open>_get_agent\<close> returns it and changes nothing.
  With none stored, it constructs one with the value of \<^verbatim>\<open>GEMINI_API_KEY\<close> in the
  process environment, or with the literal of line 34 when the variable is absent, and
  stores what the constructor returns. Once a handle is stored, any further requests keep
  that handle and never call the constructor again. The requests that construct are the
  Plan requests with a truthy \<^verbatim>\<open>orders\<close> and the ReportIncident requests with four truthy
  fields, served while no handle is stored: each calls the constructor once. A Plan
  request without orders, a ReportIncident request with a field missing, and every request
  to another route leave the handle alone and construct nothing.
\<close>

theorem agent_handle_created_once:
  "(agent_global st = Some a \<longrightarrow> get_agent E st = (Inr a, st))
 \<and> (agent_global st = None \<longrightarrow>
      (\<exists>r w'. new_agent E (case environ E ''GEMINI_API_KEY'' of
                              None \<Rightarrow> GEMINI_API_KEY | Some k \<Rightarrow> k) (world st) = (r, w')
         \<and> get_agent E st =
             (r, st\<lparr>calls := calls st @
                       [Call_AutonomousOrchestratorAgent
                          (case environ E ''GEMINI_API_KEY'' of
                             None \<Rightarrow> GEMINI_API_KEY | Some k \<Rightarrow> k)],
                    world := w',
                    agent_global := (case r of Inl e \<Rightarrow> None | Inr a' \<Rightarrow> Some a')\<rparr>)))
 \<and> (agent_global (serve E rs st) = Some a \<longrightarrow>
      agent_global (serve E (rs @ rs') st) = Some a
      \<and> filter is_constructor (calls (serve E (rs @ rs') st))
          = filter is_constructor (calls (serve E rs st)))
 \<and> (\<not> has_try q \<longrightarrow>
      agent_global (snd (handle E q st)) = agent_global st
      \<and> filter is_constructor (calls (snd (handle E q st))) = filter is_constructor (calls st))
 \<and> (map_of kvs ''orders'' = None \<or> (\<exists>v. map_of kvs ''orders'' = Some v \<and> \<not> truthy v)
      \<longrightarrow> snd (handle E (Plan (JObj kvs)) st) = st)
 \<and> ((\<exists>k \<in> {''shipment_id'', ''vehicle_id'', ''incident_type'', ''description''}.
         map_of fs k = None \<or> (\<exists>v. map_of fs k = Some v \<and> \<not> truthy v))
      \<longrightarrow> snd (handle E (ReportIncident (JObj fs)) st) = st)
 \<and> (agent_global st = None \<and> (\<exists>os. map_of kvs ''orders'' = Some os \<and> truthy os)
      \<longrightarrow> (\<exists>r w'. new_agent E (case environ E ''GEMINI_API_KEY'' of
                                 None \<Rightarrow> GEMINI_API_KEY | Some k \<Rightarrow> k) (world st) = (r, w')
            \<and> agent_global (snd (handle E (Plan (JObj kvs)) st))
                = (case r of Inl e \<Rightarrow> None | Inr a' \<Rightarrow> Some a')
            \<and> filter is_constructor (calls (snd (handle E (Plan (JObj kvs)) st)))
                = filter is_constructor (calls st) @
                  [Call_AutonomousOrchestratorAgent
                     (case environ E ''GEMINI_API_KEY'' of
                        None \<Rightarrow> GEMINI_API_KEY | Some k \<Rightarrow> k)]))
 \<and> (agent_global st = None
      \<and> (\<forall>k \<in> {''shipment_id'', ''vehicle_id'', ''incident_type'', ''description''}.
            \<exists>v. map_of fs k = Some v \<and> truthy v)
      \<longrightarrow> (\<exists>r w'. new_agent E (case environ E ''GEMINI_API_KEY'' of
                                 None \<Rightarrow> GEMINI_API_KEY | Some k \<Rightarrow> k) (world st) = (r, w')
            \<and> agent_global (snd (handle E (ReportIncident (JObj fs)) st))
                = (case r of Inl e \<Rightarrow> None | Inr a' \<Rightarrow> Some a')
            \<and> filter is_constructor (calls (snd (handle E (ReportIncident (JObj fs)) st)))
                = filter is_constructor (calls st) @
                  [Call_AutonomousOrchestratorAgent
                     (case environ E ''GEMINI_API_KEY'' of
                        None \<Rightarrow> GEMINI_API_KEY | Some k \<Rightarrow> k)]))"
proof -
  note old = agent_handle_frame [of st a E rs rs' q]
  have c5: "map_of kvs ''orders'' = None \<or> (\<exists>v. map_of kvs ''orders'' = Some v \<and> \<not> truthy v)
      \<longrightarrow> snd (handle E (Plan (JObj kvs)) st) = st"
    unfolding handle.simps by (intro impI) (rule plan_without_orders)
  have c6: "(\<exists>k \<in> {''shipment_id'', ''vehicle_id'', ''incident_type'', ''description''}.
         map_of fs k = None \<or> (\<exists>v. map_of fs k = Some v \<and> \<not> truthy v))
      \<longrightarrow> snd (handle E (ReportIncident (JObj fs)) st) = st"
    unfolding handle.simps by (intro impI) (rule report_without_field)
  obtain r w' where nw: "new_agent E (api_key_of E) (world st) = (r, w')"
    by (cases "new_agent E (api_key_of E) (world st)")
  have c7: "agent_global st = None \<and> (\<exists>os. map_of kvs ''orders'' = Some os \<and> truthy os)
      \<longrightarrow> (\<exists>r w'. new_agent E (api_key_of E) (world st) = (r, w')
            \<and> agent_global (snd (handle E (Plan (JObj kvs)) st))
                = (case r of Inl e \<Rightarrow> None | Inr a' \<Rightarrow> Some a')
            \<and> filter is_constructor (calls (snd (handle E (Plan (JObj kvs)) st)))
                = filter is_constructor (calls st) @
                  [Call_AutonomousOrchestratorAgent (api_key_of E)])"
  proof (intro impI, elim conjE exE)
    fix os
    assume "agent_global st = None" "map_of kvs ''orders'' = Some os" "truthy os"
    from plan_constructs [OF this nw] nw
    show "\<exists>r w'. new_agent E (api_key_of E) (world st) = (r, w')
            \<and> agent_global (snd (handle E (Plan (JObj kvs)) st))
                = (case r of Inl e \<Rightarrow> None | Inr a' \<Rightarrow> Some a')
            \<and> filter is_constructor (calls (snd (handle E (Plan (JObj kvs)) st)))
                = filter is_constructor (calls st) @
                  [Call_AutonomousOrchestratorAgent (api_key_of E)]"
      unfolding handle.simps by blast
  qed
  have c8: "agent_global st = None
      \<and> (\<forall>k \<in> {''shipment_id'', ''vehicle_id'', ''incident_type'', ''description''}.
            \<exists>v. map_of fs k = Some v \<and> truthy v)
      \<longrightarrow> (\<exists>r w'. new_agent E (api_key_of E) (world st) = (r, w')
            \<and> agent_global (snd (handle E (ReportIncident (JObj fs)) st))
                = (case r of Inl e \<Rightarrow> None | Inr a' \<Rightarrow> Some a')
            \<and> filter is_constructor (calls (snd (handle E (ReportIncident (JObj fs)) st)))
                = filter is_constructor (calls st) @
                  [Call_AutonomousOrchestratorAgent (api_key_of E)])"
  proof (intro impI, elim conjE)
    assume "agent_global st = None"
       "\<forall>k \<in> {''shipment_id'', ''vehicle_id'', ''incident_type'', ''description''}.
            \<exists>v. map_of fs k = Some v \<and> truthy v"
    from report_constructs [OF this nw] nw
    show "\<exists>r w'. new_agent E (api_key_of E) (world st) = (r, w')
            \<and> agent_global (snd (handle E (ReportIncident (JObj fs)) st))
                = (case r of Inl e \<Rightarrow> None | Inr a' \<Rightarrow> Some a')
            \<and> filter is_constructor (calls (snd (handle E (ReportIncident (JObj fs)) st)))
                = filter is_constructor (calls st) @
                  [Call_AutonomousOrchestratorAgent (api_key_of E)]"
      unfolding handle.simps by blast
  qed
  note o1 = old [THEN conjunct1]
  note o2 = old [THEN conjunct2, THEN conjunct1]
  note o3 = old [THEN conjunct2, THEN conjunct2, THEN conjunct1]
  note o4 = old [THEN conjunct2, THEN conjunct2, THEN conjunct2]
  note n7 = c7 [unfolded api_key_of_def]
  note n8 = c8 [unfolded api_key_of_def]
  show ?thesis by (intro conjI; fact o1 o2 o3 o4 c5 c6 n7 n8)
qed

theorem agent_handle_created_once_witness:
  "agent_global fresh = None
 \<and> get_agent (stub_env (Inr JNull)) fresh
     = (Inr 1, fresh\<lparr>calls := [Call_AutonomousOrchestratorAgent GEMINI_API_KEY],
                     agent_global := Some 1\<rparr>)
 \<and> get_agent ((stub_env (Inr JNull))\<lparr>environ := [''GEMINI_API_KEY'' \<mapsto> ''key-from-env'']\<rparr>) fresh
     = (Inr 1, fresh\<lparr>calls := [Call_AutonomousOrchestratorAgent ''key-from-env''],
                     agent_global := Some 1\<rparr>)
 \<and> agent_global (serve (stub_env (Inr JNull))
                   [Plan (JObj [(''orders'', JArr [JStr ''O001''])])] fresh) = Some 1
 \<and> get_agent (stub_env (Inr JNull))
       (serve (stub_env (Inr JNull)) [Plan (JObj [(''orders'', JArr [JStr ''O001''])])] fresh)
     = (Inr 1, serve (stub_env (Inr JNull))
                 [Plan (JObj [(''orders'', JArr [JStr ''O001''])])] fresh)
 \<and> agent_global (serve (stub_env (Inr JNull))
                   ([Plan (JObj [(''orders'', JArr [JStr ''O001''])])]
                    @ [Plan (JObj [(''orders'', JArr [JStr ''O002''])]), ListShipments]) fresh)
     = Some 1
 \<and> filter is_constructor
      (calls (serve (stub_env (Inr JNull))
                ([Plan (JObj [(''orders'', JArr [JStr ''O001''])])]
                 @ [Plan (JObj [(''orders'', JArr [JStr ''O002''])]), ListShipments]) fresh))
     = [Call_AutonomousOrchestratorAgent GEMINI_API_KEY]
 \<and> \<not> has_try ListShipments
 \<and> agent_global (snd (handle (stub_env (Inr JNull)) ListShipments fresh)) = None
 \<and> snd (handle (stub_env (Inr JNull)) (Plan (JObj [(''orders'', JArr [])])) fresh) = fresh
 \<and> snd (handle (stub_env (Inr JNull))
          (ReportIncident (JObj [(''shipment_id'', JStr ''SHP-1''), (''vehicle_id'', JStr ''V2''),
                                 (''incident_type'', JStr ''puncture'')])) fresh) = fresh
 \<and> agent_global (snd (handle (stub_env (Inr JNull))
                         (Plan (JObj [(''orders'', JArr [JStr ''O001''])])) fresh)) = Some 1
 \<and> filter is_constructor
      (calls (snd (handle (stub_env (Inr JNull))
                     (Plan (JObj [(''orders'', JArr [JStr ''O001''])])) fresh)))
     = [Call_AutonomousOrchestratorAgent GEMINI_API_KEY]
 \<and> agent_global (snd (handle (stub_env (Inr JNull))
                         (ReportIncident
                            (JObj [(''shipment_id'', JStr ''SHP-1''), (''vehicle_id'', JStr ''V2''),
                                   (''incident_type'', JStr ''puncture''),
                                   (''description'', JStr ''tyre burst'')])) fresh)) = Some 1"
proof -
  let ?E = "stub_env (Inr JNull)"
  let ?E' = "(stub_env (Inr JNull))\<lparr>environ := [''GEMINI_API_KEY'' \<mapsto> ''key-from-env'']\<rparr>"
  let ?p = "Plan (JObj [(''orders'', JArr [JStr ''O001''])])"
  let ?rs' = "[Plan (JObj [(''orders'', JArr [JStr ''O002''])]), ListShipments]"
  let ?k0 = "[(''orders'', JArr [])]"
  let ?k1 = "[(''orders'', JArr [JStr ''O001''])]"
  let ?f3 = "[(''shipment_id'', JStr ''SHP-1''), (''vehicle_id'', JStr ''V2''),
              (''incident_type'', JStr ''puncture'')]"
  let ?f4 = "[(''shipment_id'', JStr ''SHP-1''), (''vehicle_id'', JStr ''V2''),
              (''incident_type'', JStr ''puncture''), (''description'', JStr ''tyre burst'')]"
  note T = agent_handle_created_once
  have n: "agent_global fresh = None" by (simp add: fresh_def)
  have k: "environ ?E ''GEMINI_API_KEY'' = None" by (simp add: stub_env_def)
  have k': "environ ?E' ''GEMINI_API_KEY'' = Some ''key-from-env''" by simp
  have c: "new_agent ?E x 0 = (r, w') \<longleftrightarrow> r = Inr 1 \<and> w' = 0" for x r w'
    by (auto simp: stub_env_def)
  have c': "new_agent ?E' x 0 = (r, w') \<longleftrightarrow> r = Inr 1 \<and> w' = 0"
    for x r w'
    by (auto simp: stub_env_def)
  have s1: "serve ?E [?p] fresh
              = \<lparr>agent_global = Some 1, world = 1,
                 calls = [Call_AutonomousOrchestratorAgent GEMINI_API_KEY,
                          Call_plan_logistics 1 (JArr [JStr ''O001''])]\<rparr>"
    by (simp add: plan_logistics_def or_empty_dict_def get_agent_def construct_agent_def
                  api_key_of_def invoke_def stub_env_def fresh_def)
  have a1: "agent_global (serve ?E [?p] fresh) = Some 1" unfolding s1 by simp
  have f1: "filter is_constructor (calls (serve ?E [?p] fresh))
              = [Call_AutonomousOrchestratorAgent GEMINI_API_KEY]"
    unfolding s1 by simp
  have t: "\<not> has_try ListShipments" by simp
  from T [where E = ?E and st = fresh, THEN conjunct2, THEN conjunct1] n
  have g: "get_agent ?E fresh
     = (Inr 1, fresh\<lparr>calls := [Call_AutonomousOrchestratorAgent GEMINI_API_KEY],
                     agent_global := Some 1\<rparr>)"
    by (simp add: k c fresh_def)
  from T [where E = ?E' and st = fresh, THEN conjunct2, THEN conjunct1] n
  have g': "get_agent ?E' fresh
     = (Inr 1, fresh\<lparr>calls := [Call_AutonomousOrchestratorAgent ''key-from-env''],
                     agent_global := Some 1\<rparr>)"
    by (simp add: k' c c' fresh_def)
  from T [where E = ?E and st = fresh and a = 1 and rs = "[?p]" and rs' = ?rs',
          THEN conjunct2, THEN conjunct2, THEN conjunct1] a1
  have b0: "agent_global (serve ?E ([?p] @ ?rs') fresh) = Some 1
      \<and> filter is_constructor (calls (serve ?E ([?p] @ ?rs') fresh))
          = filter is_constructor (calls (serve ?E [?p] fresh))"
    by blast
  with f1 have b: "agent_global (serve ?E ([?p] @ ?rs') fresh) = Some 1
      \<and> filter is_constructor (calls (serve ?E ([?p] @ ?rs') fresh))
          = [Call_AutonomousOrchestratorAgent GEMINI_API_KEY]"
    by (simp only:)
  from T [where E = ?E and st = "serve ?E [?p] fresh" and a = 1, THEN conjunct1] a1
  have r: "get_agent ?E (serve ?E [?p] fresh) = (Inr 1, serve ?E [?p] fresh)"
    by blast
  from T [where E = ?E and st = fresh and q = ListShipments,
          THEN conjunct2, THEN conjunct2, THEN conjunct2, THEN conjunct1] t n
  have l: "agent_global (snd (handle ?E ListShipments fresh)) = None"
    by simp
  have h5: "\<exists>v. map_of ?k0 ''orders'' = Some v \<and> \<not> truthy v" by simp
  from T [where E = ?E and st = fresh and kvs = ?k0,
          THEN conjunct2, THEN conjunct2, THEN conjunct2, THEN conjunct2, THEN conjunct1] h5
  have 5: "snd (handle ?E (Plan (JObj ?k0)) fresh) = fresh"
    by blast
  have h6: "\<exists>k \<in> {''shipment_id'', ''vehicle_id'', ''incident_type'', ''description''}.
              map_of ?f3 k = None \<or> (\<exists>v. map_of ?f3 k = Some v \<and> \<not> truthy v)"
    by simp
  from T [where E = ?E and st = fresh and fs = ?f3,
          THEN conjunct2, THEN conjunct2, THEN conjunct2, THEN conjunct2, THEN conjunct2,
          THEN conjunct1] h6
  have 6: "snd (handle ?E (ReportIncident (JObj ?f3)) fresh) = fresh"
    by blast
  have h7: "\<exists>os. map_of ?k1 ''orders'' = Some os \<and> truthy os" by simp
  from T [where E = ?E and st = fresh and kvs = ?k1,
          THEN conjunct2, THEN conjunct2, THEN conjunct2, THEN conjunct2, THEN conjunct2,
          THEN conjunct2, THEN conjunct1] n h7
  have 7: "agent_global (snd (handle ?E (Plan (JObj ?k1)) fresh)) = Some 1
         \<and> filter is_constructor (calls (snd (handle ?E (Plan (JObj ?k1)) fresh)))
             = [Call_AutonomousOrchestratorAgent GEMINI_API_KEY]"
    by (auto simp: k c fresh_def)
  have h8: "\<forall>k \<in> {''shipment_id'', ''vehicle_id'', ''incident_type'', ''description''}.
              \<exists>v. map_of ?f4 k = Some v \<and> truthy v"
    by simp
  from T [where E = ?E and st = fresh and fs = ?f4,
          THEN conjunct2, THEN conjunct2, THEN conjunct2, THEN conjunct2, THEN conjunct2,
          THEN conjunct2, THEN conjunct2] n h8
  have 8: "agent_global (snd (handle ?E (ReportIncident (JObj ?f4)) fresh)) = Some 1"
    by (auto simp: k c fresh_def)
  from n g g' a1 r b t l 5 6 7 8 show ?thesis by blast
qed

section \<open>Collaborator failures, route by route\<close>

lemma plan_failure_response:
  assumes "map_of kvs ''orders'' = Some os" and "truthy os"
  shows "get_agent E st = (Inl e, st1) \<Longrightarrow>
           plan_logistics E (JObj kvs) st =
             (Inr (if is_RuntimeError e
                   then Response 422 (JObj [(''error'', JStr (exn_str e))])
                   else Response 500 (JObj [(''error'', JStr ''Internal server error.''),
                                            (''detail'', JStr (exn_str e))])),
              st1)"
    and "get_agent E st = (Inr a, st1) \<Longrightarrow>
         collaborator E (Call_plan_logistics a os) (world st1) = (Inl e, w') \<Longrightarrow>
           plan_logistics E (JObj kvs) st =
             (Inr (if is_RuntimeError e
                   then Response 422 (JObj [(''error'', JStr (exn_str e))])
                   else Response 500 (JObj [(''error'', JStr ''Internal server error.''),
                                            (''detail'', JStr (exn_str e))])),
              st1\<lparr>world := w', calls := calls st1 @ [Call_plan_logistics a os]\<rparr>)"
  using assms
  by (simp_all add: plan_logistics_def or_empty_dict_obj invoke_eq plan_except_def error_body_def)

lemma report_constructor_response:
  assumes "map_of fs ''shipment_id'' = Some sid" "truthy sid"
      and "map_of fs ''vehicle_id'' = Some vid" "truthy vid"
      and "map_of fs ''incident_type'' = Some it" "truthy it"
      and "map_of fs ''description'' = Some d" "truthy d"
      and "get_agent E st = (Inl e, st1)"
  shows "report_incident E (JObj fs) st =
           (Inr (Response 500 (JObj [(''error'', JStr (exn_str e))])), st1)"
proof -
  have m: "missing_field fs required = None"
    using assms by (simp add: required_def)
  show ?thesis
    using m assms(9)
    by (simp add: report_incident_def or_empty_dict_obj report_except_def error_body_def)
qed

lemma report_failure_response:
  assumes "map_of fs ''shipment_id'' = Some sid" "truthy sid"
      and "map_of fs ''vehicle_id'' = Some vid" "truthy vid"
      and "map_of fs ''incident_type'' = Some (JStr t)" "t \<noteq> []"
      and "map_of fs ''description'' = Some d" "truthy d"
  shows "get_agent E st = (Inl e, st1) \<Longrightarrow>
           report_incident E (JObj fs) st =
             (Inr (Response 500 (JObj [(''error'', JStr (exn_str e))])), st1)"
    and "get_agent E st = (Inr a, st1) \<Longrightarrow>
         collaborator E (Call_report_incident sid vid (upper t) d (agent_model E a)) (world st1)
           = (Inl e, w') \<Longrightarrow>
           report_incident E (JObj fs) st =
             (Inr (Response 500 (JObj [(''error'', JStr (exn_str e))])),
              st1\<lparr>world := w',
                  calls := calls st1 @
                    [Call_report_incident sid vid (upper t) d (agent_model E a)]\<rparr>)"
proof -
  have m: "missing_field fs required = None"
    using assms by (simp add: required_def)
  show "get_agent E st = (Inl e, st1) \<Longrightarrow>
           report_incident E (JObj fs) st =
             (Inr (Response 500 (JObj [(''error'', JStr (exn_str e))])), st1)"
    using m by (simp add: report_incident_def or_empty_dict_obj report_except_def error_body_def)
  show "get_agent E st = (Inr a, st1) \<Longrightarrow>
         collaborator E (Call_report_incident sid vid (upper t) d (agent_model E a)) (world st1)
           = (Inl e, w') \<Longrightarrow>
           report_incident E (JObj fs) st =
             (Inr (Response 500 (JObj [(''error'', JStr (exn_str e))])),
              st1\<lparr>world := w',
                  calls := calls st1 @
                    [Call_report_incident sid vid (upper t) d (agent_model E a)]\<rparr>)"
    using report_incident_delegates [OF assms, of E st a st1 "Inl e" w'] by simp
qed

text \<open>
  C3, amended. Plan answers an exception raised by the agent constructor or by
  \<^verbatim>\<open>plan_logistics\<close> with 422 and the body \<^verbatim>\<open>{"error": str(e)}\<close> when it is a
  \<^verbatim>\<open>RuntimeError\<close>, and with 500 and the generic body otherwise. ReportIncident answers
  an exception raised by the constructor or by \<^verbatim>\<open>report_incident\<close> with 500 and the body
  \<^verbatim>\<open>{"error": str(e)}\<close>. In these two routes, as soon as anything was called the handler
  returns a response. In the seven other routes an exception raised by the collaborator
  call leaves the handler as it is. No route calls a collaborator more than once for one
  request.
\<close>

theorem collaborator_failure_by_route:
  "(map_of kvs ''orders'' = Some os \<and> truthy os \<and> get_agent E st = (Inl e, st1)
      \<longrightarrow> handle E (Plan (JObj kvs)) st =
            (Inr (if is_RuntimeError e
                  then Response 422 (JObj [(''error'', JStr (exn_str e))])
                  else Response 500 (JObj [(''error'', JStr ''Internal server error.''),
                                           (''detail'', JStr (exn_str e))])),
             st1))
 \<and> (map_of kvs ''orders'' = Some os \<and> truthy os \<and> get_agent E st = (Inr a, st1)
      \<and> collaborator E (Call_plan_logistics a os) (world st1) = (Inl e, w')
      \<longrightarrow> handle E (Plan (JObj kvs)) st =
            (Inr (if is_RuntimeError e
                  then Response 422 (JObj [(''error'', JStr (exn_str e))])
                  else Response 500 (JObj [(''error'', JStr ''Internal server error.''),
                                           (''detail'', JStr (exn_str e))])),
             st1\<lparr>world := w', calls := calls st1 @ [Call_plan_logistics a os]\<rparr>))
 \<and> (map_of fs ''shipment_id'' = Some sid \<and> truthy sid
      \<and> map_of fs ''vehicle_id'' = Some vid \<and> truthy vid
      \<and> map_of fs ''incident_type'' = Some it \<and> truthy it
      \<and> map_of fs ''description'' = Some d \<and> truthy d
      \<and> get_agent E st = (Inl e, st1)
      \<longrightarrow> handle E (ReportIncident (JObj fs)) st =
            (Inr (Response 500 (JObj [(''error'', JStr (exn_str e))])), st1))
 \<and> (map_of fs ''shipment_id'' = Some sid \<and> truthy sid
      \<and> map_of fs ''vehicle_id'' = Some vid \<and> truthy vid
      \<and> map_of fs ''incident_type'' = Some (JStr t) \<and> t \<noteq> []
      \<and> map_of fs ''description'' = Some d \<and> truthy d
      \<and> get_agent E st = (Inr a, st1)
      \<and> collaborator E (Call_report_incident sid vid (upper t) d (agent_model E a)) (world st1)
          = (Inl e, w')
      \<longrightarrow> handle E (ReportIncident (JObj fs)) st =
            (Inr (Response 500 (JObj [(''error'', JStr (exn_str e))])),
             st1\<lparr>world := w',
                 calls := calls st1 @
                   [Call_report_incident sid vid (upper t) d (agent_model E a)]\<rparr>))
 \<and> (has_try r \<longrightarrow> calls (snd (handle E r st)) \<noteq> calls st \<longrightarrow>
      (\<exists>resp. fst (handle E r st) = Inr resp \<and> status resp \<in> {200, 422, 500}))
 \<and> (\<not> has_try r \<longrightarrow>
      (\<forall>c e' w''. calls (snd (handle E r st)) = calls st @ [c]
                 \<and> collaborator E c (world st) = (Inl e', w'')
               \<longrightarrow> fst (handle E r st) = Inl e'))
 \<and> (\<exists>cs. calls (snd (handle E r st)) = calls st @ cs
         \<and> length (filter (\<lambda>c. \<not> is_constructor c) cs) \<le> 1)"
proof -
  have p1: "map_of kvs ''orders'' = Some os \<and> truthy os \<and> get_agent E st = (Inl e, st1)
      \<longrightarrow> handle E (Plan (JObj kvs)) st =
            (Inr (if is_RuntimeError e
                  then Response 422 (JObj [(''error'', JStr (exn_str e))])
                  else Response 500 (JObj [(''error'', JStr ''Internal server error.''),
                                           (''detail'', JStr (exn_str e))])),
             st1)"
    unfolding handle.simps by (intro impI, elim conjE, rule plan_failure_response(1); assumption)
  have p2: "map_of kvs ''orders'' = Some os \<and> truthy os \<and> get_agent E st = (Inr a, st1)
      \<and> collaborator E (Call_plan_logistics a os) (world st1) = (Inl e, w')
      \<longrightarrow> handle E (Plan (JObj kvs)) st =
            (Inr (if is_RuntimeError e
                  then Response 422 (JObj [(''error'', JStr (exn_str e))])
                  else Response 500 (JObj [(''error'', JStr ''Internal server error.''),
                                           (''detail'', JStr (exn_str e))])),
             st1\<lparr>world := w', calls := calls st1 @ [Call_plan_logistics a os]\<rparr>)"
    unfolding handle.simps by (intro impI, elim conjE, rule plan_failure_response(2); assumption)
  have r1: "map_of fs ''shipment_id'' = Some sid \<and> truthy sid
      \<and> map_of fs ''vehicle_id'' = Some vid \<and> truthy vid
      \<and> map_of fs ''incident_type'' = Some it \<and> truthy it
      \<and> map_of fs ''description'' = Some d \<and> truthy d
      \<and> get_agent E st = (Inl e, st1)
      \<longrightarrow> handle E (ReportIncident (JObj fs)) st =
            (Inr (Response 500 (JObj [(''error'', JStr (exn_str e))])), st1)"
    unfolding handle.simps by (intro impI, elim conjE, rule report_constructor_response; assumption)
  have r2: "map_of fs ''shipment_id'' = Some sid \<and> truthy sid
      \<and> map_of fs ''vehicle_id'' = Some vid \<and> truthy vid
      \<and> map_of fs ''incident_type'' = Some (JStr t) \<and> t \<noteq> []
      \<and> map_of fs ''description'' = Some d \<and> truthy d
      \<and> get_agent E st = (Inr a, st1)
      \<and> collaborator E (Call_report_incident sid vid (upper t) d (agent_model E a)) (world st1)
          = (Inl e, w')
      \<longrightarrow> handle E (ReportIncident (JObj fs)) st =
            (Inr (Response 500 (JObj [(''error'', JStr (exn_str e))])),
             st1\<lparr>world := w',
                 calls := calls st1 @
                   [Call_report_incident sid vid (upper t) d (agent_model E a)]\<rparr>)"
    unfolding handle.simps by (intro impI, elim conjE, rule report_failure_response(2); assumption)
  note f = handle_failure_frame [of r E st]
  note f1 = f [THEN conjunct1]
  note f2 = f [THEN conjunct2, THEN conjunct1]
  note f3 = f [THEN conjunct2, THEN conjunct2]
  show ?thesis by (intro conjI; fact p1 p2 r1 r2 f1 f2 f3)
qed

theorem collaborator_failure_by_route_witness:
  "fst (handle (stub_env (Inl (RuntimeError ''no feasible route'')))
          (Plan (JObj [(''orders'', JArr [JStr ''O001''])])) fresh)
     = Inr (Response 422 (JObj [(''error'', JStr ''no feasible route'')]))
 \<and> fst (handle (stub_env (Inl (ValueError ''bad'')))
          (Plan (JObj [(''orders'', JArr [JStr ''O001''])])) fresh)
     = Inr (Response 500 (JObj [(''error'', JStr ''Internal server error.''),
                                (''detail'', JStr ''bad'')]))
 \<and> fst (handle ((stub_env (Inr JNull))
                   \<lparr>new_agent := (\<lambda>k w. (Inl (OtherException ''no key''), w))\<rparr>)
          (Plan (JObj [(''orders'', JArr [JStr ''O001''])])) fresh)
     = Inr (Response 500 (JObj [(''error'', JStr ''Internal server error.''),
                                (''detail'', JStr ''no key'')]))
 \<and> fst (handle (stub_env (Inl (ValueError ''bad'')))
          (ReportIncident
             (JObj [(''shipment_id'', JStr ''SHP-1''), (''vehicle_id'', JStr ''V2''),
                    (''incident_type'', JStr ''puncture''),
                    (''description'', JStr ''tyre burst'')])) fresh)
     = Inr (Response 500 (JObj [(''error'', JStr ''bad'')]))
 \<and> fst (handle ((stub_env (Inr JNull))
                   \<lparr>new_agent := (\<lambda>k w. (Inl (OtherException ''no key''), w))\<rparr>)
          (ReportIncident
             (JObj [(''shipment_id'', JStr ''SHP-1''), (''vehicle_id'', JStr ''V2''),
                    (''incident_type'', JStr ''puncture''),
                    (''description'', JStr ''tyre burst'')])) fresh)
     = Inr (Response 500 (JObj [(''error'', JStr ''no key'')]))
 \<and> fst (handle (stub_env (Inl (ValueError ''bad'')))
          (VerifyDelivery (JObj [(''shipment_id'', JStr ''SHP-1''), (''pin'', JStr ''4821'')]))
          fresh)
     = Inl (ValueError ''bad'')"
proof -
  let ?R = "stub_env (Inl (RuntimeError ''no feasible route''))"
  let ?V = "stub_env (Inl (ValueError ''bad''))"
  let ?C = "(stub_env (Inr JNull))\<lparr>new_agent := (\<lambda>k w. (Inl (OtherException ''no key''), w))\<rparr>"
  let ?pk = "[(''orders'', JArr [JStr ''O001''])]"
  let ?os = "JArr [JStr ''O001'']"
  let ?fs = "[(''shipment_id'', JStr ''SHP-1''), (''vehicle_id'', JStr ''V2''),
              (''incident_type'', JStr ''puncture''), (''description'', JStr ''tyre burst'')]"
  let ?v = "VerifyDelivery (JObj [(''shipment_id'', JStr ''SHP-1''), (''pin'', JStr ''4821'')])"
  let ?st1 = "\<lparr>agent_global = Some (1::nat), world = (0::nat),
               calls = [Call_AutonomousOrchestratorAgent GEMINI_API_KEY :: (nat, nat) call]\<rparr>"
  let ?st0 = "\<lparr>agent_global = (None :: nat option), world = (0::nat),
               calls = [Call_AutonomousOrchestratorAgent GEMINI_API_KEY :: (nat, nat) call]\<rparr>"
  note T = collaborator_failure_by_route
  have o: "map_of ?pk ''orders'' = Some ?os" "truthy ?os" by simp_all
  have f: "map_of ?fs ''shipment_id'' = Some (JStr ''SHP-1'')" "truthy (JStr ''SHP-1'')"
          "map_of ?fs ''vehicle_id'' = Some (JStr ''V2'')" "truthy (JStr ''V2'')"
          "map_of ?fs ''incident_type'' = Some (JStr ''puncture'')" "''puncture'' \<noteq> []"
          "map_of ?fs ''description'' = Some (JStr ''tyre burst'')" "truthy (JStr ''tyre burst'')"
    by simp_all
  have g: "get_agent (stub_env x) fresh = (Inr 1, ?st1)" for x
    by (simp add: get_agent_def construct_agent_def stub_env_def fresh_def api_key_of_def)
  have gc: "get_agent ?C fresh = (Inl (OtherException ''no key''), ?st0)"
    by (simp add: get_agent_def construct_agent_def stub_env_def fresh_def api_key_of_def)
  have c: "collaborator (stub_env x) k (world ?st1) = (x, 1)" for x k
    by (simp add: stub_env_def)
  have c0: "collaborator (stub_env x) k (world fresh) = (x, 1)" for x k
    by (simp add: stub_env_def fresh_def)
  from T [where E = ?R and st = fresh and kvs = ?pk and os = ?os and a = 1 and ?st1.0 = ?st1
            and e = "RuntimeError ''no feasible route''" and w' = 1,
            THEN conjunct2, THEN conjunct1] o g c
  have 1: "fst (handle ?R (Plan (JObj ?pk)) fresh)
             = Inr (Response 422 (JObj [(''error'', JStr ''no feasible route'')]))"
    by simp
  from T [where E = ?V and st = fresh and kvs = ?pk and os = ?os and a = 1 and ?st1.0 = ?st1
            and e = "ValueError ''bad''" and w' = 1,
            THEN conjunct2, THEN conjunct1] o g c
  have 2: "fst (handle ?V (Plan (JObj ?pk)) fresh)
             = Inr (Response 500 (JObj [(''error'', JStr ''Internal server error.''),
                                        (''detail'', JStr ''bad'')]))"
    by simp
  from T [where E = ?C and st = fresh and kvs = ?pk and os = ?os and ?st1.0 = ?st0
            and e = "OtherException ''no key''",
            THEN conjunct1] o gc
  have 3: "fst (handle ?C (Plan (JObj ?pk)) fresh)
             = Inr (Response 500 (JObj [(''error'', JStr ''Internal server error.''),
                                        (''detail'', JStr ''no key'')]))"
    by simp
  from T [where E = ?V and st = fresh and fs = ?fs and sid = "JStr ''SHP-1''"
            and vid = "JStr ''V2''" and t = "''puncture''" and d = "JStr ''tyre burst''"
            and a = 1 and ?st1.0 = ?st1 and e = "ValueError ''bad''" and w' = 1,
            THEN conjunct2, THEN conjunct2, THEN conjunct2, THEN conjunct1] f g c
  have 4: "fst (handle ?V (ReportIncident (JObj ?fs)) fresh)
             = Inr (Response 500 (JObj [(''error'', JStr ''bad'')]))"
    by simp
  from T [where E = ?C and st = fresh and fs = ?fs and sid = "JStr ''SHP-1''"
            and vid = "JStr ''V2''" and it = "JStr ''puncture''" and d = "JStr ''tyre burst''"
            and ?st1.0 = ?st0 and e = "OtherException ''no key''",
            THEN conjunct2, THEN conjunct2, THEN conjunct1] f gc
  have 5: "fst (handle ?C (ReportIncident (JObj ?fs)) fresh)
             = Inr (Response 500 (JObj [(''error'', JStr ''no key'')]))"
    by simp
  have v1: "\<not> has_try ?v" by simp
  have v2: "calls (snd (handle ?V ?v fresh))
              = calls fresh @ [Call_verify_pin ''SHP-1'' ''4821'' (JStr ''driver'')]"
    by (simp add: verify_delivery_def or_empty_dict_def strip_def is_space_def py_str_def
                  invoke_def stub_env_def fresh_def)
  from T [where E = ?V and st = fresh and r = ?v,
            THEN conjunct2, THEN conjunct2, THEN conjunct2, THEN conjunct2, THEN conjunct2,
            THEN conjunct1] v1 v2
       c0 [of "Inl (ValueError ''bad'')" "Call_verify_pin ''SHP-1'' ''4821'' (JStr ''driver'')"]
  have 6: "fst (handle ?V ?v fresh) = Inl (ValueError ''bad'')"
    by blast
  from 1 2 3 4 5 6 show ?thesis by blast
qed

section \<open>Verifying a delivery, resolving an incident\<close>









section \<open>Required fields\<close>

text \<open>
  On a body that is a JSON object, a missing or empty required field is answered 400 with
  the state untouched, in Plan, ReportIncident and ResolveIncident always, and in
  VerifyDelivery as long as the shipment id is absent or a string. Blank strings count as
  empty for the two ids and the pin.
\<close>

lemma plan_requires_orders:
  assumes "map_of kvs ''orders'' = None \<or> map_of kvs ''orders'' = Some (JArr [])"
  shows "\<exists>body. plan_logistics E (JObj kvs) st = (Inr (Response 400 body), st)"
  using assms by (auto simp: plan_logistics_def or_empty_dict_obj)

lemma report_requires_fields:
  assumes "k \<in> set required"
      and "map_of kvs k = None \<or> (\<exists>v. map_of kvs k = Some v \<and> \<not> truthy v)"
  shows "\<exists>body. report_incident E (JObj kvs) st = (Inr (Response 400 body), st)"
proof -
  from missing_field_finds [OF assms] obtain k'
    where "missing_field kvs required = Some k'" by blast
  then show ?thesis by (simp add: report_incident_def or_empty_dict_obj)
qed

lemma strip_blank: "\<forall>c \<in> set s. is_space c \<Longrightarrow> strip s = []"
  by (simp add: strip_eq_Nil_iff)

lemma resolve_requires_id:
  assumes "map_of kvs ''incident_id'' = None
           \<or> (\<exists>s. map_of kvs ''incident_id'' = Some (JStr s) \<and> (\<forall>c \<in> set s. is_space c))"
  shows "\<exists>body. resolve_incident E (JObj kvs) st = (Inr (Response 400 body), st)"
proof -
  from assms obtain s where "dict_get (JObj kvs) ''incident_id'' (JStr []) = Inr (JStr s)"
      and "strip s = []"
    using strip_blank [of "[]"] strip_blank by auto
  then show ?thesis by (simp add: resolve_incident_def or_empty_dict_obj)
qed

lemma verify_requires_id_and_pin:
  assumes id_str: "map_of kvs ''shipment_id'' = None \<or> map_of kvs ''shipment_id'' = Some (JStr s)"
      and blank: "map_of kvs ''shipment_id'' = None \<or> (\<forall>c \<in> set s. is_space c)
                  \<or> map_of kvs ''pin'' = None
                  \<or> (\<exists>p. map_of kvs ''pin'' = Some (JStr p) \<and> (\<forall>c \<in> set p. is_space c))"
  shows "\<exists>body. verify_delivery E (JObj kvs) st = (Inr (Response 400 body), st)"
proof -
  from id_str obtain s' where i: "dict_get (JObj kvs) ''shipment_id'' (JStr []) = Inr (JStr s')"
      and i': "map_of kvs ''shipment_id'' = None \<and> s' = []
               \<or> map_of kvs ''shipment_id'' = Some (JStr s) \<and> s' = s"
    by auto
  obtain v where p: "dict_get (JObj kvs) ''pin'' (JStr []) = Inr v" by simp
  obtain b where b: "dict_get (JObj kvs) ''verified_by'' (JStr ''driver'') = Inr b" by simp
  from blank i' p have "strip s' = [] \<or> strip (py_str E v) = []"
    using strip_blank [of "[]"] strip_blank by (auto simp: py_str_def)
  with i p b show ?thesis
    by (auto simp: verify_delivery_def or_empty_dict_obj)
qed

text \<open>
  C1 at the body \<^verbatim>\<open>{"shipment_id": 123}\<close>: the pin is missing, and the handler does not
  return 400. Line 99 calls \<^verbatim>\<open>strip\<close> on the number before line 103 looks at either
  field, and the \<^verbatim>\<open>AttributeError\<close> leaves the handler. Nothing is called.
\<close>

theorem verify_delivery_missing_pin_raises:
  "verify_delivery E (JObj [(''shipment_id'', JInt 123)]) st
     = (Inl (AttributeError (quoted ''int'' @ '' object has no attribute '' @ quoted ''strip'')),
        st)"
  by (simp add: verify_delivery_def or_empty_dict_def no_attribute_def)

text \<open>
  C10 at the body \<^verbatim>\<open>{"shipment_id": 123, "pin": "   "}\<close>: the pin is blank, and the
  handler does not return 400, for the same reason. Nothing is called.
\<close>

theorem verify_delivery_blank_pin_raises:
  "verify_delivery E (JObj [(''shipment_id'', JInt 123), (''pin'', JStr ''   '')]) st
     = (Inl (AttributeError (quoted ''int'' @ '' object has no attribute '' @ quoted ''strip'')),
        st)"
  by (simp add: verify_delivery_def or_empty_dict_def no_attribute_def)

section \<open>When the agent cannot be constructed\<close>

lemma plan_constructor_failure:
  assumes "map_of kvs ''orders'' = Some (JArr (x # xs))" and "get_agent E st = (Inl e, st1)"
  shows "plan_logistics E (JObj kvs) st = (Inr (plan_except e), st1)"
  using assms by (simp add: plan_logistics_def or_empty_dict_obj)

lemma report_constructor_failure:
  assumes "missing_field kvs required = None" and "get_agent E st = (Inl e, st1)"
  shows "report_incident E (JObj kvs) st = (Inr (Response 500 (error_body (exn_str e))), st1)"
  using assms by (simp add: report_incident_def or_empty_dict_obj report_except_def)

end
